theory Spec2Isabelle
  imports Complex_Main "HOL-Library.AList"
begin

section \<open>JavaScript values used by the backend\<close>

text \<open>
  A JavaScript string is a sequence of UTF-16 code units; the dictionaries of the
  classifier are Cyrillic, so a string is modelled as the list of its code units.
  Texts that are plain ASCII and only produced (never scanned), such as the output of
  \<^verbatim>\<open>toFixed\<close>, are HOL strings.

  Numbers are IEEE doubles in the source. They are modelled as exact rationals. The
  weights of the top-10 CTR table, the dictionary weights and the domain biases are
  multiples of 1/2 of small magnitude, so their sums, their products with 0.5 and 0.75
  and the halving of a score plus 100 are computed without rounding in double arithmetic
  as well. Where the source rounds a quotient before it compares or prints it, a note at
  the definition says what the rational model leaves out. The one place where the source
  divides by a possibly zero number without a guard (\<^verbatim>\<open>negativeWeight / totalCTR\<close>)
  is modelled with the non-finite results written out.
\<close>

type_synonym jsstring = "nat list"

datatype jsnum = Finite rat | PosInfinity | NegInfinity | NaN

text \<open>\<^verbatim>\<open>a / b\<close> on finite numbers: 0/0 is NaN, x/0 is an infinity.\<close>

definition js_div :: "rat \<Rightarrow> rat \<Rightarrow> jsnum" where
  "js_div a b =
     (if b = 0 then (if a = 0 then NaN else if 0 < a then PosInfinity else NegInfinity)
      else Finite (a / b))"

text \<open>\<^verbatim>\<open>x > c\<close> for a finite constant c: every comparison with NaN is false.\<close>

fun js_gt :: "jsnum \<Rightarrow> rat \<Rightarrow> bool" where
  "js_gt (Finite x) c = (c < x)"
| "js_gt PosInfinity c = True"
| "js_gt NegInfinity c = False"
| "js_gt NaN c = False"

definition digit_char :: "nat \<Rightarrow> char" where
  "digit_char n = ''0123456789'' ! n"

fun show_nat :: "nat \<Rightarrow> string" where
  "show_nat n = (if n < 10 then [digit_char n] else show_nat (n div 10) @ [digit_char (n mod 10)])"

declare show_nat.simps [simp del]

text \<open>
  \<^verbatim>\<open>x.toFixed(1)\<close>: the integer n with n/10 closest to x, the larger one on a tie,
  printed with one digit after the point; a negative x prints as \<^verbatim>\<open>-\<close> followed by
  the text of its absolute value. (Numbers of magnitude \<open>10^21\<close> and more print in
  exponent form in JavaScript; no number of this program comes near.)
\<close>

definition fixed1 :: "rat \<Rightarrow> string" where
  "fixed1 x = (let n = nat \<lfloor>x * 10 + 1 / 2\<rfloor> in show_nat (n div 10) @ ''.'' @ [digit_char (n mod 10)])"

definition toFixed1 :: "rat \<Rightarrow> string" where
  "toFixed1 x = (if x < 0 then CHR ''-'' # fixed1 (- x) else fixed1 x)"

section \<open>Search results and the CTR table\<close>

datatype sentiment = Positive | Negative | Neutral | Other jsstring

datatype risk = Low | Medium | High

record search_result =
  position :: nat
  url :: jsstring
  title :: "jsstring option"
  snippet :: "jsstring option"
  domain :: jsstring
  sentiment :: sentiment
  ctr :: rat

text \<open>\<^verbatim>\<open>CTR_COEFFICIENTS\<close>: positions 1 to 50 listed, 51 to 100 spread in at 0.03.\<close>

definition CTR_COEFFICIENTS :: "(nat \<times> rat) list" where
  "CTR_COEFFICIENTS =
    [(1, 30), (2, 20), (3, 14), (4, 10), (5, 7),
     (6, 6), (7, 5), (8, 4), (9, 5 / 2), (10, 3 / 2),
     (11, 21 / 10), (12, 19 / 10), (13, 16 / 10), (14, 14 / 10), (15, 13 / 10),
     (16, 12 / 10), (17, 1), (18, 9 / 10), (19, 8 / 10), (20, 7 / 10),
     (21, 6 / 10), (22, 55 / 100), (23, 5 / 10), (24, 45 / 100), (25, 4 / 10),
     (26, 38 / 100), (27, 36 / 100), (28, 34 / 100), (29, 32 / 100), (30, 3 / 10),
     (31, 28 / 100), (32, 26 / 100), (33, 24 / 100), (34, 22 / 100), (35, 2 / 10),
     (36, 19 / 100), (37, 18 / 100), (38, 17 / 100), (39, 16 / 100), (40, 15 / 100),
     (41, 14 / 100), (42, 13 / 100), (43, 12 / 100), (44, 11 / 100), (45, 1 / 10),
     (46, 9 / 100), (47, 8 / 100), (48, 7 / 100), (49, 6 / 100), (50, 5 / 100)]
    @ map (\<lambda>i. (i + 51, 3 / 100)) [0..<50]"

text \<open>\<^verbatim>\<open>CTR_COEFFICIENTS[p] || 0.03\<close>: a missing position, or a zero entry, gives 0.03.\<close>

definition ctr_for :: "nat \<Rightarrow> rat" where
  "ctr_for p =
     (case map_of CTR_COEFFICIENTS p of
        None \<Rightarrow> 3 / 100
      | Some c \<Rightarrow> if c = 0 then 3 / 100 else c)"

text \<open>
  The renumbering step of \<^verbatim>\<open>realSearch\<close> and \<^verbatim>\<open>realSearchWithProgress\<close>:
  \<^verbatim>\<open>results.map((r, i) => ({...r, position: i + 1, ctr: CTR_COEFFICIENTS[i + 1] || 0.03}))\<close>.
\<close>

definition renumber :: "search_result list \<Rightarrow> search_result list" where
  "renumber results =
     map (\<lambda>(i, r). r\<lparr>position := i + 1, ctr := ctr_for (i + 1)\<rparr>) (enumerate 0 results)"

section \<open>The metrics aggregator\<close>

record weights =
  positiveWeight :: rat
  negativeWeight :: rat
  neutralWeight :: rat
  totalCTR :: rat
  score :: rat

record metrics =
  totalResults :: nat
  positiveCount :: nat
  negativeCount :: nat
  neutralCount :: nat
  positivePercent :: string
  negativePercent :: string
  neutralPercent :: string
  rating :: string
  balance :: string
  scoreText :: string
  riskLevel :: risk

definition weights0 :: weights where
  "weights0 = \<lparr>positiveWeight = 0, negativeWeight = 0, neutralWeight = 0, totalCTR = 0, score = 0\<rparr>"

text \<open>The body of \<^verbatim>\<open>top10.forEach\<close>.\<close>

definition add_result :: "search_result \<Rightarrow> weights \<Rightarrow> weights" where
  "add_result r w =
     (let w = w\<lparr>totalCTR := totalCTR w + ctr r\<rparr> in
      if sentiment r = Positive then
        w\<lparr>positiveWeight := positiveWeight w + ctr r, score := score w + ctr r * 1\<rparr>
      else if sentiment r = Negative then
        w\<lparr>negativeWeight := negativeWeight w + ctr r, score := score w - ctr r * 1\<rparr>
      else
        w\<lparr>neutralWeight := neutralWeight w + ctr r, score := score w + ctr r * (3 / 4)\<rparr>)"

definition top10_weights :: "search_result list \<Rightarrow> weights" where
  "top10_weights results = fold add_result (take 10 results) weights0"

text \<open>
  \<^verbatim>\<open>totalCTR > 0 ? ((w / totalCTR) * 100).toFixed(1) : '0.0'\<close>. The source rounds the
  quotient and the product to doubles before printing; the model prints the exact value.
\<close>

definition percent :: "rat \<Rightarrow> rat \<Rightarrow> string" where
  "percent w tot = (if 0 < tot then toFixed1 ((w / tot) * 100) else ''0.0'')"

definition negativeRatio :: "weights \<Rightarrow> jsnum" where
  "negativeRatio w = js_div (negativeWeight w) (totalCTR w)"

definition calculateMetrics :: "search_result list \<Rightarrow> metrics" where
  "calculateMetrics results =
     (let w = top10_weights results;
          rating = (score w + 100) / 2
      in \<lparr>totalResults = length results,
          positiveCount = length (filter (\<lambda>r. sentiment r = Positive) results),
          negativeCount = length (filter (\<lambda>r. sentiment r = Negative) results),
          neutralCount = length (filter (\<lambda>r. sentiment r = Neutral) results),
          positivePercent = percent (positiveWeight w) (totalCTR w),
          negativePercent = percent (negativeWeight w) (totalCTR w),
          neutralPercent = percent (neutralWeight w) (totalCTR w),
          rating = toFixed1 rating,
          balance = toFixed1 rating,
          scoreText = toFixed1 (score w),
          riskLevel = (if js_gt (negativeRatio w) (1 / 2) then High
                       else if js_gt (negativeRatio w) (3 / 10) then Medium else Low)\<rparr>)"

section \<open>The lexical sentiment classifier\<close>

subsection \<open>Dictionaries\<close>

text \<open>
  \<^verbatim>\<open>SENTIMENT_WORDS.positive\<close> and \<^verbatim>\<open>SENTIMENT_WORDS.negative\<close>, in the order of the
  object literal (the order \<^verbatim>\<open>Object.entries\<close> walks them in). Each stem is given as
  its UTF-16 code units, with a Latin transliteration beside it.
\<close>

definition SENTIMENT_WORDS_positive :: "(jsstring \<times> rat) list" where
  "SENTIMENT_WORDS_positive =
    [
     ([1074, 1099, 1076, 1072, 1102, 1097, 1080, 1081, 1089, 1103], 3), \<comment> \<open>vydayushchijsya\<close>
     ([1074, 1077, 1083, 1080, 1082, 1086, 1083, 1077, 1087, 1085, 1099, 1081], 3), \<comment> \<open>velikolepnyj\<close>
     ([1073, 1083, 1077, 1089, 1090, 1103, 1097, 1080, 1081], 3), \<comment> \<open>blestyashchij\<close>
     ([1075, 1077, 1085, 1080, 1072, 1083, 1100, 1085, 1099, 1081], 3), \<comment> \<open>genial*nyj\<close>
     ([1083, 1077, 1075, 1077, 1085, 1076, 1072, 1088, 1085, 1099, 1081], 3), \<comment> \<open>legendarnyj\<close>
     ([1092, 1077, 1085, 1086, 1084, 1077, 1085, 1072, 1083, 1100, 1085, 1099, 1081], 3), \<comment> \<open>fenomenal*nyj\<close>
     ([1090, 1088, 1080, 1091, 1084, 1092], 3), \<comment> \<open>triumf\<close>
     ([1087, 1088, 1086, 1088, 1099, 1074], 3), \<comment> \<open>proryv\<close>
     ([1091, 1089, 1087, 1077, 1093], 2), \<comment> \<open>uspekh\<close>
     ([1091, 1089, 1087, 1077, 1096, 1085], 2), \<comment> \<open>uspeshn\<close>
     ([1087, 1086, 1073, 1077, 1076, 1072], 2), \<comment> \<open>pobeda\<close>
     ([1087, 1086, 1073, 1077, 1076, 1080, 1090, 1077, 1083], 2), \<comment> \<open>pobeditel\<close>
     ([1090, 1072, 1083, 1072, 1085, 1090], 2), \<comment> \<open>talant\<close>
     ([1076, 1086, 1089, 1090, 1080, 1078, 1077, 1085, 1080, 1077], 2), \<comment> \<open>dostizhenie\<close>
     ([1085, 1072, 1075, 1088, 1072, 1076, 1072], 2), \<comment> \<open>nagrada\<close>
     ([1085, 1072, 1075, 1088, 1072, 1078, 1076, 1077, 1085], 2), \<comment> \<open>nagrazhden\<close>
     ([1087, 1088, 1080, 1079, 1085, 1072, 1085, 1080, 1077], 2), \<comment> \<open>priznanie\<close>
     ([1079, 1074, 1077, 1079, 1076, 1072], 2), \<comment> \<open>zvezda\<close>
     ([1087, 1088, 1086, 1092, 1077, 1089, 1089, 1080, 1086, 1085, 1072, 1083], 2), \<comment> \<open>professional\<close>
     ([1101, 1082, 1089, 1087, 1077, 1088, 1090], 2), \<comment> \<open>ekspert\<close>
     ([1084, 1072, 1089, 1090, 1077, 1088], 2), \<comment> \<open>master\<close>
     ([1083, 1080, 1076, 1077, 1088], 2), \<comment> \<open>lider\<close>
     ([1088, 1077, 1082, 1086, 1088, 1076], 2), \<comment> \<open>rekord\<close>
     ([1083, 1072, 1091, 1088, 1077, 1072, 1090], 2), \<comment> \<open>laureat\<close>
     ([1095, 1077, 1084, 1087, 1080, 1086, 1085], 2), \<comment> \<open>chempion\<close>
     ([1093, 1086, 1088, 1086, 1096, 1080, 1081], 1), \<comment> \<open>khoroshij\<close>
     ([1093, 1086, 1088, 1086, 1096], 1), \<comment> \<open>khorosh\<close>
     ([1086, 1090, 1083, 1080, 1095, 1085], 1), \<comment> \<open>otlichn\<close>
     ([1087, 1088, 1077, 1082, 1088, 1072, 1089, 1085], 1), \<comment> \<open>prekrasn\<close>
     ([1079, 1072, 1084, 1077, 1095, 1072, 1090, 1077, 1083, 1100, 1085], 1), \<comment> \<open>zamechatel*n\<close>
     ([1087, 1086, 1087, 1091, 1083, 1103, 1088, 1085], 1), \<comment> \<open>populyarn\<close>
     ([1080, 1079, 1074, 1077, 1089, 1090, 1085], 1), \<comment> \<open>izvestn\<close>
     ([1083, 1102, 1073, 1080, 1084], 1), \<comment> \<open>lyubim\<close>
     ([1091, 1074, 1072, 1078, 1072, 1077, 1084], 1), \<comment> \<open>uvazhaem\<close>
     ([1087, 1086, 1095, 1077, 1090, 1085], 1), \<comment> \<open>pochetn\<close>
     ([1082, 1088, 1072, 1089, 1080, 1074], 1), \<comment> \<open>krasiv\<close>
     ([1080, 1085, 1090, 1077, 1088, 1077, 1089, 1085], 1), \<comment> \<open>interesn\<close>
     ([1087, 1086, 1083, 1077, 1079, 1085], 1), \<comment> \<open>polezn\<close>
     ([1082, 1072, 1095, 1077, 1089, 1090, 1074, 1077, 1085], 1), \<comment> \<open>kachestven\<close>
     ([1088, 1077, 1082, 1086, 1084, 1077, 1085, 1076, 1091, 1077, 1084], 1), \<comment> \<open>rekomenduem\<close>
     ([1088, 1077, 1082, 1086, 1084, 1077, 1085, 1076, 1091, 1102], 1), \<comment> \<open>rekomenduyu\<close>
     ([1089, 1086, 1074, 1077, 1090, 1091, 1102], 1), \<comment> \<open>sovetuyu\<close>
     ([1085, 1088, 1072, 1074, 1080, 1090, 1089, 1103], 1), \<comment> \<open>nravitsya\<close>
     ([1088, 1072, 1076, 1086, 1089, 1090, 1100], 1), \<comment> \<open>radost*\<close>
     ([1089, 1095, 1072, 1089, 1090, 1100, 1077], 1), \<comment> \<open>schast*e\<close>
     ([1089, 1095, 1072, 1089, 1090, 1083, 1080, 1074], 1), \<comment> \<open>schastliv\<close>
     ([1087, 1086, 1079, 1080, 1090, 1080, 1074], 1), \<comment> \<open>pozitiv\<close>
     ([1074, 1076, 1086, 1093, 1085, 1086, 1074, 1083, 1103], 1), \<comment> \<open>vdokhnovlya\<close>
     ([1074, 1086, 1089, 1093, 1080, 1097, 1072], 1), \<comment> \<open>voskhishcha\<close>
     ([1074, 1087, 1077, 1095, 1072, 1090, 1083, 1103], 1) \<comment> \<open>vpechatlya\<close>
    ]"

definition SENTIMENT_WORDS_negative :: "(jsstring \<times> rat) list" where
  "SENTIMENT_WORDS_negative =
    [
     ([1084, 1086, 1096, 1077, 1085, 1085, 1080, 1082], 3), \<comment> \<open>moshennik\<close>
     ([1084, 1086, 1096, 1077, 1085, 1085, 1080, 1095, 1077, 1089, 1090, 1074, 1086], 3), \<comment> \<open>moshennichestvo\<close>
     ([1072, 1092, 1077, 1088, 1072], 3), \<comment> \<open>afera\<close>
     ([1072, 1092, 1077, 1088, 1080, 1089, 1090], 3), \<comment> \<open>aferist\<close>
     ([1087, 1088, 1077, 1089, 1090, 1091, 1087, 1085, 1080, 1082], 3), \<comment> \<open>prestupnik\<close>
     ([1087, 1088, 1077, 1089, 1090, 1091, 1087, 1083, 1077, 1085], 3), \<comment> \<open>prestuplen\<close>
     ([1072, 1088, 1077, 1089, 1090], 3), \<comment> \<open>arest\<close>
     ([1072, 1088, 1077, 1089, 1090, 1086, 1074, 1072, 1085], 3), \<comment> \<open>arestovan\<close>
     ([1090, 1102, 1088, 1100, 1084, 1072], 3), \<comment> \<open>tyur*ma\<close>
     ([1079, 1072, 1082, 1083, 1102, 1095, 1077, 1085], 3), \<comment> \<open>zaklyuchen\<close>
     ([1091, 1073, 1080, 1081, 1089, 1090, 1074, 1086], 3), \<comment> \<open>ubijstvo\<close>
     ([1091, 1073, 1080, 1081, 1094, 1072], 3), \<comment> \<open>ubijtsa\<close>
     ([1085, 1072, 1089, 1080, 1083, 1080, 1077], 3), \<comment> \<open>nasilie\<close>
     ([1085, 1072, 1089, 1080, 1083, 1100, 1085, 1080, 1082], 3), \<comment> \<open>nasil*nik\<close>
     ([1087, 1077, 1076, 1086, 1092, 1080, 1083], 3), \<comment> \<open>pedofil\<close>
     ([1080, 1079, 1085, 1072, 1089, 1080, 1083, 1086, 1074], 3), \<comment> \<open>iznasilov\<close>
     ([1085, 1072, 1088, 1082, 1086, 1090, 1080, 1082], 3), \<comment> \<open>narkotik\<close>
     ([1085, 1072, 1088, 1082, 1086, 1084, 1072, 1085], 3), \<comment> \<open>narkoman\<close>
     ([1082, 1086, 1088, 1088, 1091, 1087, 1094], 3), \<comment> \<open>korrupts\<close>
     ([1074, 1079, 1103, 1090, 1082], 3), \<comment> \<open>vzyatk\<close>
     ([1088, 1072, 1079, 1086, 1073, 1083, 1072, 1095], 3), \<comment> \<open>razoblach\<close>
     ([1082, 1086, 1084, 1087, 1088, 1086, 1084, 1072, 1090], 3), \<comment> \<open>kompromat\<close>
     ([1089, 1082, 1072, 1085, 1076, 1072, 1083], 2), \<comment> \<open>skandal\<close>
     ([1087, 1088, 1086, 1074, 1072, 1083], 2), \<comment> \<open>proval\<close>
     ([1073, 1072, 1085, 1082, 1088, 1086, 1090], 2), \<comment> \<open>bankrot\<close>
     ([1073, 1072, 1085, 1082, 1088, 1086, 1090, 1089, 1090, 1074], 2), \<comment> \<open>bankrotstv\<close>
     ([1086, 1073, 1084, 1072, 1085], 2), \<comment> \<open>obman\<close>
     ([1086, 1073, 1084, 1072, 1085, 1091, 1083], 2), \<comment> \<open>obmanul\<close>
     ([1083, 1086, 1078, 1100], 2), \<comment> \<open>lozh*\<close>
     ([1083, 1078, 1077, 1094], 2), \<comment> \<open>lzhets\<close>
     ([1074, 1088, 1077, 1090], 2), \<comment> \<open>vret\<close>
     ([1074, 1086, 1088, 1086, 1074, 1089, 1090, 1074], 2), \<comment> \<open>vorovstv\<close>
     ([1091, 1082, 1088, 1072, 1083], 2), \<comment> \<open>ukral\<close>
     ([1082, 1088, 1072, 1078, 1072], 2), \<comment> \<open>krazha\<close>
     ([1093, 1080, 1097, 1077, 1085, 1080, 1077], 2), \<comment> \<open>khishchenie\<close>
     ([1086, 1073, 1074, 1080, 1085, 1077, 1085], 2), \<comment> \<open>obvinen\<close>
     ([1086, 1073, 1074, 1080, 1085, 1103], 2), \<comment> \<open>obvinya\<close>
     ([1087, 1086, 1076, 1086, 1079, 1088, 1077, 1074, 1072], 2), \<comment> \<open>podozreva\<close>
     ([1087, 1086, 1076, 1086, 1079, 1088, 1077, 1085, 1080, 1077], 2), \<comment> \<open>podozrenie\<close>
     ([1089, 1091, 1076], 2), \<comment> \<open>sud\<close>
     ([1089, 1091, 1076, 1080, 1084], 2), \<comment> \<open>sudim\<close>
     ([1096, 1090, 1088, 1072, 1092], 2), \<comment> \<open>shtraf\<close>
     ([1080, 1089, 1082], 2), \<comment> \<open>isk\<close>
     ([1091, 1074, 1086, 1083, 1100, 1085], 2), \<comment> \<open>uvol*n\<close>
     ([1091, 1074, 1086, 1083, 1077, 1085], 2), \<comment> \<open>uvolen\<close>
     ([1086, 1090, 1089, 1090, 1072, 1074, 1082], 2), \<comment> \<open>otstavk\<close>
     ([1090, 1088, 1072, 1075, 1077, 1076, 1080, 1103], 2), \<comment> \<open>tragediya\<close>
     ([1090, 1088, 1072, 1075, 1080, 1095, 1077, 1089, 1082], 2), \<comment> \<open>tragichesk\<close>
     ([1075, 1080, 1073, 1077, 1083, 1100], 2), \<comment> \<open>gibel*\<close>
     ([1089, 1084, 1077, 1088, 1090, 1100], 2), \<comment> \<open>smert*\<close>
     ([1078, 1077, 1088, 1090, 1074], 2), \<comment> \<open>zhertv\<close>
     ([1082, 1072, 1090, 1072, 1089, 1090, 1088, 1086, 1092], 2), \<comment> \<open>katastrof\<close>
     ([1072, 1074, 1072, 1088, 1080, 1103], 2), \<comment> \<open>avariya\<close>
     ([1082, 1088, 1080, 1090, 1080, 1082], 1), \<comment> \<open>kritik\<close>
     ([1082, 1088, 1080, 1090, 1080, 1082, 1091], 1), \<comment> \<open>kritiku\<close>
     ([1085, 1077, 1075, 1072, 1090, 1080, 1074], 1), \<comment> \<open>negativ\<close>
     ([1087, 1088, 1086, 1073, 1083, 1077, 1084], 1), \<comment> \<open>problem\<close>
     ([1082, 1086, 1085, 1092, 1083, 1080, 1082, 1090], 1), \<comment> \<open>konflikt\<close>
     ([1089, 1087, 1086, 1088], 1), \<comment> \<open>spor\<close>
     ([1089, 1089, 1086, 1088, 1072], 1), \<comment> \<open>ssora\<close>
     ([1089, 1082, 1072, 1085, 1076, 1072, 1083, 1100, 1085], 1), \<comment> \<open>skandal*n\<close>
     ([1078, 1072, 1083, 1086, 1073], 1), \<comment> \<open>zhalob\<close>
     ([1087, 1088, 1077, 1090, 1077, 1085, 1079, 1080], 1), \<comment> \<open>pretenzi\<close>
     ([1085, 1077, 1076, 1086, 1074, 1086, 1083, 1100, 1085], 1), \<comment> \<open>nedovol*n\<close>
     ([1074, 1086, 1079, 1084, 1091, 1097, 1077, 1085], 1), \<comment> \<open>vozmushchen\<close>
     ([1087, 1083, 1086, 1093], 1), \<comment> \<open>plokh\<close>
     ([1091, 1078, 1072, 1089, 1085], 1), \<comment> \<open>uzhasn\<close>
     ([1082, 1086, 1096, 1084, 1072, 1088], 1), \<comment> \<open>koshmar\<close>
     ([1086, 1090, 1074, 1088, 1072, 1090, 1080, 1090, 1077, 1083, 1100, 1085], 1), \<comment> \<open>otvratitel*n\<close>
     ([1088, 1072, 1079, 1086, 1095, 1072, 1088, 1086, 1074], 1), \<comment> \<open>razocharov\<close>
     ([1085, 1077, 1091, 1076, 1072, 1095], 1), \<comment> \<open>neudach\<close>
     ([1087, 1088, 1086, 1074, 1072, 1083, 1100, 1085], 1), \<comment> \<open>proval*n\<close>
     ([1086, 1096, 1080, 1073, 1082], 1), \<comment> \<open>oshibk\<close>
     ([1082, 1088, 1080, 1079, 1080, 1089], 1), \<comment> \<open>krizis\<close>
     ([1076, 1086, 1083, 1075], 1), \<comment> \<open>dolg\<close>
     ([1079, 1072, 1076, 1086, 1083, 1078, 1077, 1085], 1), \<comment> \<open>zadolzhen\<close>
     ([1088, 1072, 1079, 1074, 1086, 1076], 1), \<comment> \<open>razvod\<close>
     ([1080, 1079, 1084, 1077, 1085], 1), \<comment> \<open>izmen\<close>
     ([1085, 1077, 1074, 1077, 1088, 1085], 1), \<comment> \<open>nevern\<close>
     ([1072, 1083, 1082, 1086, 1075, 1086, 1083], 1), \<comment> \<open>alkogol\<close>
     ([1087, 1100, 1103, 1085], 1), \<comment> \<open>p*yan\<close>
     ([1079, 1072, 1087, 1086, 1081], 1), \<comment> \<open>zapoj\<close>
     ([1073, 1086, 1083, 1077, 1079, 1085], 1), \<comment> \<open>bolezn\<close>
     ([1073, 1086, 1083, 1077, 1085], 1), \<comment> \<open>bolen\<close>
     ([1076, 1080, 1072, 1075, 1085, 1086, 1079], 1) \<comment> \<open>diagnoz\<close>
    ]"

definition NEGATION_WORDS :: "jsstring list" where
  "NEGATION_WORDS =
    [
     [1085, 1077], \<comment> \<open>ne\<close>
     [1085, 1077, 1090], \<comment> \<open>net\<close>
     [1073, 1077, 1079], \<comment> \<open>bez\<close>
     [1085, 1080], \<comment> \<open>ni\<close>
     [1085, 1080, 1082, 1072, 1082], \<comment> \<open>nikak\<close>
     [1085, 1080, 1082, 1086, 1075, 1076, 1072], \<comment> \<open>nikogda\<close>
     [1085, 1080, 1075, 1076, 1077], \<comment> \<open>nigde\<close>
     [1085, 1080, 1082, 1090, 1086], \<comment> \<open>nikto\<close>
     [1085, 1080, 1095, 1090, 1086], \<comment> \<open>nichto\<close>
     [1086, 1090, 1089, 1091, 1090, 1089, 1090, 1074] \<comment> \<open>otsutstv\<close>
    ]"

definition DOMAIN_BIAS :: "(jsstring \<times> rat) list" where
  "DOMAIN_BIAS =
    [
     ([107, 111, 109, 112, 114, 111, 109, 97, 116, 119, 105, 107, 105, 46, 111, 114, 103], - 2), \<comment> \<open>kompromatwiki.org\<close>
     ([99, 111, 109, 112, 114, 111, 109, 97, 116, 46, 114, 117], - 2), \<comment> \<open>compromat.ru\<close>
     ([114, 117, 99, 114, 105, 109, 105, 110, 97, 108, 46, 105, 110, 102, 111], - 2), \<comment> \<open>rucriminal.info\<close>
     ([107, 111, 109, 112, 114, 111, 109, 97, 116, 46, 114, 117], - 2), \<comment> \<open>kompromat.ru\<close>
     ([97, 110, 116, 105, 99, 111, 109, 112, 114, 111, 109, 97, 116, 46, 111, 114, 103], - 1), \<comment> \<open>anticompromat.org\<close>
     ([115, 99, 97, 110, 100, 97, 108, 46, 114, 117], - 1), \<comment> \<open>scandal.ru\<close>
     ([119, 105, 107, 105, 112, 101, 100, 105, 97, 46, 111, 114, 103], 0), \<comment> \<open>wikipedia.org\<close>
     ([114, 117, 46, 119, 105, 107, 105, 112, 101, 100, 105, 97, 46, 111, 114, 103], 0), \<comment> \<open>ru.wikipedia.org\<close>
     ([102, 111, 114, 98, 101, 115, 46, 114, 117], 1 / 2), \<comment> \<open>forbes.ru\<close>
     ([114, 98, 99, 46, 114, 117], 0), \<comment> \<open>rbc.ru\<close>
     ([118, 101, 100, 111, 109, 111, 115, 116, 105, 46, 114, 117], 0), \<comment> \<open>vedomosti.ru\<close>
     ([107, 111, 109, 109, 101, 114, 115, 97, 110, 116, 46, 114, 117], 0), \<comment> \<open>kommersant.ru\<close>
     ([118, 107, 46, 99, 111, 109], 0), \<comment> \<open>vk.com\<close>
     ([105, 110, 115, 116, 97, 103, 114, 97, 109, 46, 99, 111, 109], 0), \<comment> \<open>instagram.com\<close>
     ([102, 97, 99, 101, 98, 111, 111, 107, 46, 99, 111, 109], 0), \<comment> \<open>facebook.com\<close>
     ([121, 111, 117, 116, 117, 98, 101, 46, 99, 111, 109], 0), \<comment> \<open>youtube.com\<close>
     ([116, 105, 107, 116, 111, 107, 46, 99, 111, 109], 0), \<comment> \<open>tiktok.com\<close>
     ([100, 122, 101, 110, 46, 114, 117], 0), \<comment> \<open>dzen.ru\<close>
     ([111, 116, 122, 111, 118, 105, 107, 46, 99, 111, 109], 0), \<comment> \<open>otzovik.com\<close>
     ([105, 114, 101, 99, 111, 109, 109, 101, 110, 100, 46, 114, 117], 0), \<comment> \<open>irecommend.ru\<close>
     ([102, 108, 97, 109, 112, 46, 114, 117], 0) \<comment> \<open>flamp.ru\<close>
    ]"

subsection \<open>Tokenizing\<close>

text \<open>
  \<^verbatim>\<open>toLowerCase\<close>, code unit by code unit: the Latin and the Cyrillic capitals
  (U+0041 to U+005A, U+0400 to U+042F) go to their small letters, the Kelvin sign
  (U+212A) goes to \<^verbatim>\<open>k\<close>, and the dotted capital I (U+0130) to \<^verbatim>\<open>i\<close> followed by a
  combining dot (U+0307), the one mapping that lengthens the text. These are all the
  code units whose lower case contains a letter that the tokenizer below takes for part
  of a word. Every other capital goes to a small letter that is a separator as the
  capital is; the model leaves such code units as they are, which gives the same words.
\<close>

definition toLowerCase_unit :: "nat \<Rightarrow> nat list" where
  "toLowerCase_unit c =
     (if 65 \<le> c \<and> c \<le> 90 then [c + 32]
      else if 1040 \<le> c \<and> c \<le> 1071 then [c + 32]
      else if 1024 \<le> c \<and> c \<le> 1039 then [c + 80]
      else if c = 8490 then [107]
      else if c = 304 then [105, 775]
      else [c])"

definition toLowerCase :: "jsstring \<Rightarrow> jsstring" where
  "toLowerCase s = concat (map toLowerCase_unit s)"

text \<open>
  The character class of \<^verbatim>\<open>/[^\u0430-\u044f\u0451a-z0-9]+/i\<close>, read positively: a code unit that
  belongs to a word. The class lists the small Cyrillic letters (U+0430 to U+044F and
  U+0451), the small Latin letters and the digits. Under the \<^verbatim>\<open>i\<close> flag a code unit
  matches when its upper case is the upper case of a listed one: that adds the capitals
  and the seven historic small Cyrillic letters U+1C80 to U+1C86, whose upper case is an
  ordinary Cyrillic capital. (A code unit above U+007F whose upper case is a Latin
  capital is not matched by a Latin letter: the canonicalization of the regular
  expression leaves it as it is.)
\<close>

definition is_word_unit :: "nat \<Rightarrow> bool" where
  "is_word_unit c =
     ((1072 \<le> c \<and> c \<le> 1103) \<or> c = 1105 \<or> (97 \<le> c \<and> c \<le> 122) \<or> (48 \<le> c \<and> c \<le> 57)
      \<or> (1040 \<le> c \<and> c \<le> 1071) \<or> c = 1025 \<or> (65 \<le> c \<and> c \<le> 90)
      \<or> (7296 \<le> c \<and> c \<le> 7302))"

text \<open>
  \<^verbatim>\<open>text.split(/[^...]+/i)\<close>: the pieces between the maximal runs of separators. A text
  that starts or ends with a separator has an empty first or last piece.
\<close>

function split_pieces :: "jsstring \<Rightarrow> jsstring \<Rightarrow> jsstring list" where
  "split_pieces piece [] = [piece]"
| "split_pieces piece (c # cs) =
     (if is_word_unit c then split_pieces (piece @ [c]) cs
      else piece # split_pieces [] (dropWhile (\<lambda>d. \<not> is_word_unit d) cs))"
  by pat_completeness auto
termination
  by (relation "measure (\<lambda>(piece, cs). length cs)")
     (auto simp: length_dropWhile_le less_Suc_eq_le)

definition split_text :: "jsstring \<Rightarrow> jsstring list" where
  "split_text text = split_pieces [] text"

text \<open>\<^verbatim>\<open>xs.slice(a, b)\<close> for indices that are not negative.\<close>

definition slice :: "'a list \<Rightarrow> nat \<Rightarrow> nat \<Rightarrow> 'a list" where
  "slice xs a b = take (b - a) (drop a xs)"

text \<open>\<^verbatim>\<open>x || ''\<close> for a title or snippet that may be null or undefined.\<close>

fun or_empty :: "jsstring option \<Rightarrow> jsstring" where
  "or_empty None = []"
| "or_empty (Some s) = s"

text \<open>
  The template \<^verbatim>\<open>` ${title || ''} ${snippet || ''} `\<close>, then
  \<^verbatim>\<open>.toLowerCase().substring(0, 1000)\<close>, then the words: the non-empty pieces, the
  first 200 of them.
\<close>

definition padded :: "jsstring option \<Rightarrow> jsstring option \<Rightarrow> jsstring" where
  "padded ttl snip = [32] @ or_empty ttl @ [32] @ or_empty snip @ [32]"

definition sentiment_text :: "jsstring option \<Rightarrow> jsstring option \<Rightarrow> jsstring" where
  "sentiment_text ttl snip = take 1000 (toLowerCase (padded ttl snip))"

definition words_of :: "jsstring \<Rightarrow> jsstring list" where
  "words_of text = take 200 (filter (\<lambda>w. 0 < length w) (split_text text))"

subsection \<open>Scoring\<close>

record scores =
  positiveScore :: rat
  negativeScore :: rat

fun startsWith :: "jsstring \<Rightarrow> jsstring \<Rightarrow> bool" where
  "startsWith w [] = True"
| "startsWith [] (k # ks) = False"
| "startsWith (c # w) (k # ks) = (c = k \<and> startsWith w ks)"

text \<open>
  The inner \<^verbatim>\<open>for (const [keyword, weight] of Object.entries(...))\<close> with its
  \<^verbatim>\<open>break\<close>: the first entry whose keyword the word starts with, or equals.
\<close>

definition first_match :: "(jsstring \<times> rat) list \<Rightarrow> jsstring \<Rightarrow> (jsstring \<times> rat) option" where
  "first_match entries word = find (\<lambda>(keyword, weight). startsWith word keyword \<or> word = keyword) entries"

text \<open>
  \<^verbatim>\<open>textWords.slice(Math.max(0, i - 3), i).some(w => NEGATION_WORDS.includes(w))\<close>;
  the subtraction is that of the integers.
\<close>

definition hasNegation :: "jsstring list \<Rightarrow> nat \<Rightarrow> bool" where
  "hasNegation textWords i =
     list_ex (\<lambda>w. w \<in> set NEGATION_WORDS) (slice textWords (nat (max 0 (int i - 3))) i)"

definition score_positive :: "jsstring list \<Rightarrow> nat \<Rightarrow> scores \<Rightarrow> scores" where
  "score_positive textWords i s =
     (case first_match SENTIMENT_WORDS_positive (textWords ! i) of
        None \<Rightarrow> s
      | Some (keyword, weight) \<Rightarrow>
          if hasNegation textWords i then s\<lparr>negativeScore := negativeScore s + weight * (1 / 2)\<rparr>
          else s\<lparr>positiveScore := positiveScore s + weight\<rparr>)"

definition score_negative :: "jsstring list \<Rightarrow> nat \<Rightarrow> scores \<Rightarrow> scores" where
  "score_negative textWords i s =
     (case first_match SENTIMENT_WORDS_negative (textWords ! i) of
        None \<Rightarrow> s
      | Some (keyword, weight) \<Rightarrow>
          if hasNegation textWords i then s\<lparr>positiveScore := positiveScore s + weight * (1 / 2)\<rparr>
          else s\<lparr>negativeScore := negativeScore s + weight\<rparr>)"

text \<open>One turn of the outer loop, and the loop over \<open>i = 0, ..., length - 1\<close>.\<close>

definition score_word :: "jsstring list \<Rightarrow> nat \<Rightarrow> scores \<Rightarrow> scores" where
  "score_word textWords i s = score_negative textWords i (score_positive textWords i s)"

definition word_scores :: "jsstring list \<Rightarrow> scores" where
  "word_scores textWords =
     fold (score_word textWords) [0..<length textWords] \<lparr>positiveScore = 0, negativeScore = 0\<rparr>"

text \<open>\<^verbatim>\<open>DOMAIN_BIAS[domain] || 0\<close> and the two branches that add it.\<close>

definition domainBias :: "jsstring \<Rightarrow> rat" where
  "domainBias site = (case map_of DOMAIN_BIAS site of None \<Rightarrow> 0 | Some b \<Rightarrow> b)"

definition add_bias :: "jsstring \<Rightarrow> scores \<Rightarrow> scores" where
  "add_bias site s =
     (if 0 < domainBias site then s\<lparr>positiveScore := positiveScore s + domainBias site\<rparr>
      else if domainBias site < 0 then s\<lparr>negativeScore := negativeScore s + \<bar>domainBias site\<bar>\<rparr>
      else s)"

definition final_scores :: "jsstring option \<Rightarrow> jsstring option \<Rightarrow> jsstring \<Rightarrow> scores" where
  "final_scores ttl snip site =
     add_bias site (word_scores (words_of (sentiment_text ttl snip)))"

text \<open>
  The decision on the two scores. Both are sums of at most 200 dictionary weights, halved
  or not, and a bias: multiples of 1/2, exact in doubles. The source rounds the quotient
  \<^verbatim>\<open>normalizedDiff\<close> to a double and compares it with the double nearest to 0.3. A
  quotient of such scores that is not 3/10 is further from 3/10 than any rounding error,
  and one that is 3/10 rounds to the double that the literal \<^verbatim>\<open>0.3\<close> denotes, so the
  comparison of the exact quotient with 3/10 decides as the source does.
\<close>

definition decide :: "scores \<Rightarrow> sentiment" where
  "decide s =
     (let totalScore = positiveScore s + negativeScore s in
      if totalScore = 0 then Neutral
      else
        let normalizedDiff = (positiveScore s - negativeScore s) / totalScore in
        if 3 / 10 < normalizedDiff then Positive
        else if normalizedDiff < - (3 / 10) then Negative
        else Neutral)"

definition analyzeSentiment :: "jsstring option \<Rightarrow> jsstring option \<Rightarrow> jsstring \<Rightarrow> sentiment" where
  "analyzeSentiment ttl snip site = decide (final_scores ttl snip site)"

subsection \<open>The explanation text\<close>

text \<open>\<^verbatim>\<open>Nejtral*naya informatsionnaya publikatsiya\<close> (transliterated).\<close>

definition TEXT_NEUTRAL :: jsstring where
  "TEXT_NEUTRAL =
     [1053, 1077, 1081, 1090, 1088, 1072, 1083, 1100, 1085, 1072, 1103, 32, 1080, 1085,
      1092, 1086, 1088, 1084, 1072, 1094, 1080, 1086, 1085, 1085, 1072, 1103, 32, 1087,
      1091, 1073, 1083, 1080, 1082, 1072, 1094, 1080, 1103]"

text \<open>\<^verbatim>\<open>Smeshannaya tonal*nost*, balans pozitiva i negativa\<close> (transliterated).\<close>

definition TEXT_MIXED :: jsstring where
  "TEXT_MIXED =
     [1057, 1084, 1077, 1096, 1072, 1085, 1085, 1072, 1103, 32, 1090, 1086, 1085, 1072,
      1083, 1100, 1085, 1086, 1089, 1090, 1100, 44, 32, 1073, 1072, 1083, 1072, 1085,
      1089, 32, 1087, 1086, 1079, 1080, 1090, 1080, 1074, 1072, 32, 1080, 32, 1085,
      1077, 1075, 1072, 1090, 1080, 1074, 1072]"

text \<open>\<^verbatim>\<open>Pozitivnye markery: \<close> (transliterated).\<close>

definition TEXT_POSITIVE_MARKERS :: jsstring where
  "TEXT_POSITIVE_MARKERS =
     [1055, 1086, 1079, 1080, 1090, 1080, 1074, 1085, 1099, 1077, 32, 1084, 1072, 1088,
      1082, 1077, 1088, 1099, 58, 32]"

text \<open>\<^verbatim>\<open>Obshchij pozitivnyj ton publikatsii\<close> (transliterated).\<close>

definition TEXT_POSITIVE_TONE :: jsstring where
  "TEXT_POSITIVE_TONE =
     [1054, 1073, 1097, 1080, 1081, 32, 1087, 1086, 1079, 1080, 1090, 1080, 1074, 1085,
      1099, 1081, 32, 1090, 1086, 1085, 32, 1087, 1091, 1073, 1083, 1080, 1082, 1072,
      1094, 1080, 1080]"

text \<open>\<^verbatim>\<open>Negativnye markery: \<close> (transliterated).\<close>

definition TEXT_NEGATIVE_MARKERS :: jsstring where
  "TEXT_NEGATIVE_MARKERS =
     [1053, 1077, 1075, 1072, 1090, 1080, 1074, 1085, 1099, 1077, 32, 1084, 1072, 1088,
      1082, 1077, 1088, 1099, 58, 32]"

text \<open>\<^verbatim>\<open>Obshchij negativnyj ton publikatsii\<close> (transliterated).\<close>

definition TEXT_NEGATIVE_TONE :: jsstring where
  "TEXT_NEGATIVE_TONE =
     [1054, 1073, 1097, 1080, 1081, 32, 1085, 1077, 1075, 1072, 1090, 1080, 1074, 1085,
      1099, 1081, 32, 1090, 1086, 1085, 32, 1087, 1091, 1073, 1083, 1080, 1082, 1072,
      1094, 1080, 1080]"

text \<open>\<^verbatim>\<open> | Istochnik: kompromatnyj resurs\<close> (transliterated).\<close>

definition TEXT_COMPROMAT_SOURCE :: jsstring where
  "TEXT_COMPROMAT_SOURCE =
     [32, 124, 32, 1048, 1089, 1090, 1086, 1095, 1085, 1080, 1082, 58, 32, 1082, 1086,
      1084, 1087, 1088, 1086, 1084, 1072, 1090, 1085, 1099, 1081, 32, 1088, 1077, 1089,
      1091, 1088, 1089]"

text \<open>
  The markers found in the text: for each word, the first entry of the dictionary whose
  keyword the word starts with; the word is kept with that entry's weight.
\<close>

definition found_markers :: "(jsstring \<times> rat) list \<Rightarrow> jsstring list \<Rightarrow> (jsstring \<times> rat) list" where
  "found_markers entries textWords =
     concat (map (\<lambda>word. case find (\<lambda>(keyword, weight). startsWith word keyword) entries of
                            None \<Rightarrow> []
                          | Some (keyword, weight) \<Rightarrow> [(word, weight)]) textWords)"

text \<open>
  \<^verbatim>\<open>found.sort((a, b) => b.weight - a.weight)\<close>, a stable sort by falling weight, and
  \<^verbatim>\<open>found.slice(0, 3).map(w => `"${w.word}"`).join(', ')\<close>.
\<close>

definition by_weight :: "(jsstring \<times> rat) list \<Rightarrow> (jsstring \<times> rat) list" where
  "by_weight found = sort_key (\<lambda>(word, weight). - weight) found"

fun join_comma :: "jsstring list \<Rightarrow> jsstring" where
  "join_comma [] = []"
| "join_comma [w] = w"
| "join_comma (w # ws) = w @ [44, 32] @ join_comma ws"

definition keywords_of :: "(jsstring \<times> rat) list \<Rightarrow> jsstring" where
  "keywords_of found = join_comma (map (\<lambda>(word, weight). [34] @ word @ [34]) (take 3 found))"

definition generateSentimentExplanation ::
  "jsstring option \<Rightarrow> jsstring option \<Rightarrow> jsstring \<Rightarrow> sentiment \<Rightarrow> jsstring" where
  "generateSentimentExplanation ttl snip site sent =
     (let text = toLowerCase (padded ttl snip);
          textWords = words_of text;
          foundPositive = by_weight (found_markers SENTIMENT_WORDS_positive textWords);
          foundNegative = by_weight (found_markers SENTIMENT_WORDS_negative textWords)
      in if sent = Positive then
           (if 0 < length foundPositive then TEXT_POSITIVE_MARKERS @ keywords_of foundPositive
            else TEXT_POSITIVE_TONE)
         else if sent = Negative then
           (if 0 < length foundNegative then TEXT_NEGATIVE_MARKERS @ keywords_of foundNegative
            else TEXT_NEGATIVE_TONE)
           @ (case map_of DOMAIN_BIAS site of
                None \<Rightarrow> []
              | Some b \<Rightarrow> if b \<noteq> 0 \<and> b < 0 then TEXT_COMPROMAT_SOURCE else [])
         else
           (if length foundPositive = 0 \<and> length foundNegative = 0 then TEXT_NEUTRAL
            else TEXT_MIXED))"

section \<open>The classifier adapter\<close>

text \<open>\<^verbatim>\<open>Lokal*nyj analiz (Claude API ne nastroen)\<close> (transliterated).\<close>

definition TEXT_LOCAL_NOT_CONFIGURED :: jsstring where
  "TEXT_LOCAL_NOT_CONFIGURED =
     [1051, 1086, 1082, 1072, 1083, 1100, 1085, 1099, 1081, 32, 1072, 1085, 1072, 1083,
      1080, 1079, 32, 40, 67, 108, 97, 117, 100, 101, 32, 65, 80, 73, 32, 1085, 1077,
      32, 1085, 1072, 1089, 1090, 1088, 1086, 1077, 1085, 41]"

text \<open>\<^verbatim>\<open>Oshibka Claude API: \<close> (transliterated).\<close>

definition TEXT_CLAUDE_ERROR :: jsstring where
  "TEXT_CLAUDE_ERROR =
     [1054, 1096, 1080, 1073, 1082, 1072, 32, 67, 108, 97, 117, 100, 101, 32, 65, 80,
      73, 58, 32]"

text \<open>
  What one call of the backend comes to, seen from \<^verbatim>\<open>analyzeSentimentWithClaude\<close>:
  anything thrown inside its \<^verbatim>\<open>try\<close> (the request failing or timing out, a reply that
  \<^verbatim>\<open>JSON.parse\<close> rejects) with the error's message, or a parsed reply. In a reply each
  field is absent when it is missing or falsy.
\<close>

datatype api_outcome =
  ApiError jsstring
| ApiReply "sentiment option" "jsstring option" "rat option"

type_synonym client = "jsstring option \<Rightarrow> jsstring option \<Rightarrow> jsstring option \<Rightarrow> api_outcome"

record analysis =
  verdict :: sentiment
  explanation :: jsstring
  confidence :: rat

definition analyzeSentimentWithClaude ::
  "client option \<Rightarrow> jsstring option \<Rightarrow> jsstring option \<Rightarrow> jsstring option \<Rightarrow> analysis" where
  "analyzeSentimentWithClaude client ttl snip link =
     (case client of
        None \<Rightarrow>
          \<lparr>verdict = analyzeSentiment ttl snip [],
           explanation = TEXT_LOCAL_NOT_CONFIGURED,
           confidence = 1 / 2\<rparr>
      | Some create \<Rightarrow>
          (case create ttl snip link of
             ApiReply s e c \<Rightarrow>
               \<lparr>verdict = (case s of None \<Rightarrow> Neutral | Some v \<Rightarrow> v),
                explanation = or_empty e,
                confidence = (case c of None \<Rightarrow> 7 / 10 | Some v \<Rightarrow> v)\<rparr>
           | ApiError message \<Rightarrow>
               \<lparr>verdict = analyzeSentiment ttl snip [],
                explanation = TEXT_CLAUDE_ERROR @ message,
                confidence = 3 / 10\<rparr>))"

section \<open>The background job orchestrator\<close>

subsection \<open>Projects, entities and tasks\<close>

record region_info =
  region_name :: jsstring
  region_code :: jsstring
  googleGl :: jsstring
  yandexLr :: jsstring

text \<open>
  \<^verbatim>\<open>REGIONS\<close>. Its entry for \<^verbatim>\<open>'ru'\<close>, the fallback of every lookup, is named on
  its own.
\<close>

definition STR_ru :: jsstring where
  "STR_ru = [114, 117]" \<comment> \<open>ru\<close>

definition REGION_ru :: region_info where
  "REGION_ru =
     \<lparr>region_name = [1056, 1086, 1089, 1089, 1080, 1103],
      region_code = [114, 117], googleGl = [114, 117], yandexLr = [50, 50, 53]\<rparr>"

definition REGIONS :: "(jsstring \<times> region_info) list" where
  "REGIONS =
    [
     (STR_ru, REGION_ru), \<comment> \<open>ru: Rossiya\<close>
     ([114, 117, 45, 109, 115, 107],
      \<lparr>region_name = [1052, 1086, 1089, 1082, 1074, 1072],
       region_code = [114, 117, 45, 109, 115, 107], googleGl = [114, 117], yandexLr = [50, 49, 51]\<rparr>), \<comment> \<open>ru-msk: Moskva\<close>
     ([114, 117, 45, 115, 112, 98],
      \<lparr>region_name = [1057, 1072, 1085, 1082, 1090, 45, 1055, 1077, 1090, 1077, 1088, 1073, 1091, 1088, 1075],
       region_code = [114, 117, 45, 115, 112, 98], googleGl = [114, 117], yandexLr = [50]\<rparr>), \<comment> \<open>ru-spb: Sankt-Peterburg\<close>
     ([114, 117, 45, 107, 114, 100],
      \<lparr>region_name = [1050, 1088, 1072, 1089, 1085, 1086, 1076, 1072, 1088],
       region_code = [114, 117, 45, 107, 114, 100], googleGl = [114, 117], yandexLr = [51, 53]\<rparr>), \<comment> \<open>ru-krd: Krasnodar\<close>
     ([114, 117, 45, 110, 115, 107],
      \<lparr>region_name = [1053, 1086, 1074, 1086, 1089, 1080, 1073, 1080, 1088, 1089, 1082],
       region_code = [114, 117, 45, 110, 115, 107], googleGl = [114, 117], yandexLr = [54, 53]\<rparr>), \<comment> \<open>ru-nsk: Novosibirsk\<close>
     ([114, 117, 45, 101, 107, 98],
      \<lparr>region_name = [1045, 1082, 1072, 1090, 1077, 1088, 1080, 1085, 1073, 1091, 1088, 1075],
       region_code = [114, 117, 45, 101, 107, 98], googleGl = [114, 117], yandexLr = [53, 52]\<rparr>), \<comment> \<open>ru-ekb: Ekaterinburg\<close>
     ([117, 97],
      \<lparr>region_name = [1059, 1082, 1088, 1072, 1080, 1085, 1072],
       region_code = [117, 97], googleGl = [117, 97], yandexLr = [49, 56, 55]\<rparr>), \<comment> \<open>ua: Ukraina\<close>
     ([98, 121],
      \<lparr>region_name = [1041, 1077, 1083, 1072, 1088, 1091, 1089, 1100],
       region_code = [98, 121], googleGl = [98, 121], yandexLr = [49, 52, 57]\<rparr>), \<comment> \<open>by: Belarus'\<close>
     ([107, 122],
      \<lparr>region_name = [1050, 1072, 1079, 1072, 1093, 1089, 1090, 1072, 1085],
       region_code = [107, 122], googleGl = [107, 122], yandexLr = [49, 53, 57]\<rparr>), \<comment> \<open>kz: Kazakhstan\<close>
     ([117, 115],
      \<lparr>region_name = [1057, 1064, 1040],
       region_code = [117, 115], googleGl = [117, 115], yandexLr = [56, 52]\<rparr>), \<comment> \<open>us: SShA\<close>
     ([100, 101],
      \<lparr>region_name = [1043, 1077, 1088, 1084, 1072, 1085, 1080, 1103],
       region_code = [100, 101], googleGl = [100, 101], yandexLr = [57, 54]\<rparr>), \<comment> \<open>de: Germaniya\<close>
     ([119, 111, 114, 108, 100],
      \<lparr>region_name = [1042, 1077, 1089, 1100, 32, 1084, 1080, 1088],
       region_code = [119, 111, 114, 108, 100], googleGl = [], yandexLr = [48]\<rparr>) \<comment> \<open>world: Ves' mir\<close>
    ]"

text \<open>
  \<^verbatim>\<open>REGIONS\<close> is a plain object, so a lookup also finds what every object inherits:
  the properties of \<^verbatim>\<open>Object.prototype\<close>. Each is a function, or for \<^verbatim>\<open>__proto__\<close>
  the prototype object itself; all are truthy. The job reads \<^verbatim>\<open>.code\<close> and
  \<^verbatim>\<open>.name\<close> of what the lookup gives: an inherited value has no \<^verbatim>\<open>code\<close>, and as
  \<^verbatim>\<open>name\<close> a function has its own name. The table gives that name for each inherited
  key.
\<close>

definition OBJECT_PROTOTYPE :: "(jsstring \<times> jsstring option) list" where
  "OBJECT_PROTOTYPE =
    [
     ([99, 111, 110, 115, 116, 114, 117, 99, 116, 111, 114],
      Some [79, 98, 106, 101, 99, 116]), \<comment> \<open>constructor: a function named Object\<close>
     ([95, 95, 100, 101, 102, 105, 110, 101, 71, 101, 116, 116, 101, 114, 95, 95],
      Some [95, 95, 100, 101, 102, 105, 110, 101, 71, 101, 116, 116, 101, 114, 95, 95]), \<comment> \<open>__defineGetter__: a function named __defineGetter__\<close>
     ([95, 95, 100, 101, 102, 105, 110, 101, 83, 101, 116, 116, 101, 114, 95, 95],
      Some [95, 95, 100, 101, 102, 105, 110, 101, 83, 101, 116, 116, 101, 114, 95, 95]), \<comment> \<open>__defineSetter__: a function named __defineSetter__\<close>
     ([104, 97, 115, 79, 119, 110, 80, 114, 111, 112, 101, 114, 116, 121],
      Some [104, 97, 115, 79, 119, 110, 80, 114, 111, 112, 101, 114, 116, 121]), \<comment> \<open>hasOwnProperty: a function named hasOwnProperty\<close>
     ([95, 95, 108, 111, 111, 107, 117, 112, 71, 101, 116, 116, 101, 114, 95, 95],
      Some [95, 95, 108, 111, 111, 107, 117, 112, 71, 101, 116, 116, 101, 114, 95, 95]), \<comment> \<open>__lookupGetter__: a function named __lookupGetter__\<close>
     ([95, 95, 108, 111, 111, 107, 117, 112, 83, 101, 116, 116, 101, 114, 95, 95],
      Some [95, 95, 108, 111, 111, 107, 117, 112, 83, 101, 116, 116, 101, 114, 95, 95]), \<comment> \<open>__lookupSetter__: a function named __lookupSetter__\<close>
     ([105, 115, 80, 114, 111, 116, 111, 116, 121, 112, 101, 79, 102],
      Some [105, 115, 80, 114, 111, 116, 111, 116, 121, 112, 101, 79, 102]), \<comment> \<open>isPrototypeOf: a function named isPrototypeOf\<close>
     ([112, 114, 111, 112, 101, 114, 116, 121, 73, 115, 69, 110, 117, 109, 101, 114, 97, 98, 108, 101],
      Some [112, 114, 111, 112, 101, 114, 116, 121, 73, 115, 69, 110, 117, 109, 101, 114, 97, 98, 108, 101]), \<comment> \<open>propertyIsEnumerable: a function named propertyIsEnumerable\<close>
     ([116, 111, 83, 116, 114, 105, 110, 103],
      Some [116, 111, 83, 116, 114, 105, 110, 103]), \<comment> \<open>toString: a function named toString\<close>
     ([118, 97, 108, 117, 101, 79, 102],
      Some [118, 97, 108, 117, 101, 79, 102]), \<comment> \<open>valueOf: a function named valueOf\<close>
     ([95, 95, 112, 114, 111, 116, 111, 95, 95],
      None), \<comment> \<open>__proto__: the prototype object\<close>
     ([116, 111, 76, 111, 99, 97, 108, 101, 83, 116, 114, 105, 110, 103],
      Some [116, 111, 76, 111, 99, 97, 108, 101, 83, 116, 114, 105, 110, 103]) \<comment> \<open>toLocaleString: a function named toLocaleString\<close>
    ]"

definition STR_google :: jsstring where
  "STR_google = [103, 111, 111, 103, 108, 101]" \<comment> \<open>google\<close>

record engine_outcome =
  results :: "search_result list"
  engine_metrics :: metrics

text \<open>
  \<^verbatim>\<open>parsingResults\<close>. Its \<^verbatim>\<open>engines\<close> object is an association list in insertion
  order; assigning to a key that is there replaces the value in place. The code and the
  name of its region are what the job read from \<^verbatim>\<open>regionInfo\<close>, undefined when they
  are \<open>None\<close>.
\<close>

record parsing =
  parsing_id :: jsstring
  date :: jsstring
  parsing_region_code :: "jsstring option"
  parsing_region_name :: "jsstring option"
  parsing_engines :: "(jsstring \<times> engine_outcome) list"

record entity =
  entity_id :: jsstring
  entity_name :: jsstring
  engines :: "jsstring list"
  depth :: nat
  parsings :: "parsing list"

record project =
  project_id :: jsstring
  project_region :: "jsstring option"
  entities :: "entity list"

datatype status = Running | Completed | Error

record task =
  projectId :: jsstring
  entityId :: jsstring
  entityName :: jsstring
  status :: status
  progress :: int
  currentStep :: jsstring
  totalSteps :: nat
  completedSteps :: nat
  result :: "parsing option"
  error :: "jsstring option"
  startedAt :: jsstring
  completedAt :: "jsstring option"

text \<open>
  \<^verbatim>\<open>activeParsings\<close>, a \<^verbatim>\<open>Map\<close> from task ids to tasks, walked in insertion order;
  \<^verbatim>\<open>set\<close> is \<open>AList.update\<close>, \<^verbatim>\<open>get\<close> is \<open>map_of\<close>. The store is the list of
  projects that \<^verbatim>\<open>loadProjects\<close> reads and \<^verbatim>\<open>saveProjects\<close> replaces.
\<close>

type_synonym registry = "(jsstring \<times> task) list"

type_synonym store = "project list"

subsection \<open>Submission\<close>

datatype response =
  ProjectNotFound
| EntityNotFound
| AlreadyRunning jsstring
| Started jsstring

text \<open>\<^verbatim>\<open>a || b\<close> on strings that may be missing: the empty string is falsy too.\<close>

fun or_else :: "jsstring option \<Rightarrow> jsstring \<Rightarrow> jsstring" where
  "or_else None d = d"
| "or_else (Some s) d = (if s = [] then d else s)"

text \<open>
  \<^verbatim>\<open>const selectedRegion = region || project.region || 'ru'\<close> and
  \<^verbatim>\<open>const regionInfo = REGIONS[selectedRegion] || REGIONS['ru']\<close>, as the job sees it:
  the \<^verbatim>\<open>code\<close> and the \<^verbatim>\<open>name\<close> of the region's entry, of the inherited value when
  the key is an inherited one, and of the entry for \<^verbatim>\<open>'ru'\<close> otherwise.
\<close>

definition selectedRegion :: "jsstring option \<Rightarrow> project \<Rightarrow> jsstring" where
  "selectedRegion region p = or_else region (or_else (project_region p) STR_ru)"

record region_seen =
  seen_code :: "jsstring option"
  seen_name :: "jsstring option"

definition regionInfo :: "jsstring \<Rightarrow> region_seen" where
  "regionInfo selected =
     (case map_of REGIONS selected of
        Some r \<Rightarrow> \<lparr>seen_code = Some (region_code r), seen_name = Some (region_name r)\<rparr>
      | None \<Rightarrow>
          (case map_of OBJECT_PROTOTYPE selected of
             Some inherited_name \<Rightarrow> \<lparr>seen_code = None, seen_name = inherited_name\<rparr>
           | None \<Rightarrow>
               \<lparr>seen_code = Some (region_code REGION_ru), seen_name = Some (region_name REGION_ru)\<rparr>))"

text \<open>
  The scan of the registry at submission:
  \<^verbatim>\<open>for (const [taskId, task] of activeParsings)
     if (task.entityId === entityId && task.status === 'running') return ...\<close>.
\<close>

definition running_for :: "registry \<Rightarrow> jsstring \<Rightarrow> (jsstring \<times> task) option" where
  "running_for activeParsings eid =
     find (\<lambda>(taskId, t). entityId t = eid \<and> status t = Running) activeParsings"

text \<open>\<^verbatim>\<open>Initsializatsiya...\<close> (transliterated).\<close>

definition TEXT_INIT :: jsstring where
  "TEXT_INIT =
     [1048, 1085, 1080, 1094, 1080, 1072, 1083, 1080, 1079, 1072, 1094, 1080, 1103, 46,
      46, 46]"

text \<open>
  The handler of \<^verbatim>\<open>POST .../parse-background\<close> up to the point where the job is
  handed to the scheduler: the lookups, the scan, and the new task. \<open>newId\<close> is what
  \<^verbatim>\<open>uuidv4()\<close> returns and \<open>now\<close> the time stamp. The job itself is \<open>background_job\<close>
  below.
\<close>

definition parse_background ::
  "store \<Rightarrow> registry \<Rightarrow> jsstring \<Rightarrow> jsstring \<Rightarrow> jsstring \<Rightarrow> jsstring \<Rightarrow> response \<times> registry" where
  "parse_background projects activeParsings pid eid newId now =
     (case find (\<lambda>p. project_id p = pid) projects of
        None \<Rightarrow> (ProjectNotFound, activeParsings)
      | Some p \<Rightarrow>
          (case find (\<lambda>e. entity_id e = eid) (entities p) of
             None \<Rightarrow> (EntityNotFound, activeParsings)
           | Some e \<Rightarrow>
               (case running_for activeParsings eid of
                  Some (taskId, t) \<Rightarrow> (AlreadyRunning taskId, activeParsings)
                | None \<Rightarrow>
                    (Started newId,
                     AList.update newId
                       \<lparr>projectId = pid, entityId = eid, entityName = entity_name e,
                        status = Running, progress = 0, currentStep = TEXT_INIT,
                        totalSteps = length (engines e) * 2 + 1, completedSteps = 0,
                        result = None, error = None, startedAt = now, completedAt = None\<rparr>
                       activeParsings))))"

subsection \<open>Double arithmetic\<close>

text \<open>
  The progress of a job is computed from fractions that are not multiples of a power of
  two, such as \<^verbatim>\<open>0.1 + (page / pages) * 0.4\<close>, and is then rounded to an integer, so
  here the rounding of every operation to a double shows in the result. A double is
  modelled as the rational it denotes, and \<open>to_double\<close> rounds a rational to the nearest
  double, a tie to the one with the even mantissa, as IEEE 754 does for binary64 in the
  normal range: 53 bits of mantissa, and no bound on the exponent (no overflow, no
  subnormal numbers; the numbers of the progress computation are far from both).
\<close>

text \<open>The number of binary digits of a natural number.\<close>

fun bits :: "nat \<Rightarrow> nat" where
  "bits n = (if n = 0 then 0 else Suc (bits (n div 2)))"

declare bits.simps [simp del]

definition pow2 :: "int \<Rightarrow> rat" where
  "pow2 e = (if 0 \<le> e then 2 ^ nat e else 1 / 2 ^ nat (- e))"

text \<open>The exponent \<open>e\<close> of a positive rational \<open>x\<close>: \<open>pow2 e \<le> x < pow2 (e + 1)\<close>.\<close>

definition exponent_of :: "rat \<Rightarrow> int" where
  "exponent_of x =
     (if 1 \<le> x then int (bits (nat \<lfloor>x\<rfloor>)) - 1 else - int (bits (nat (\<lceil>1 / x\<rceil> - 1))))"

definition round_half_even :: "rat \<Rightarrow> int" where
  "round_half_even m =
     (let f = \<lfloor>m\<rfloor>; d = m - of_int f
      in if d < 1 / 2 then f else if 1 / 2 < d then f + 1 else if even f then f else f + 1)"

definition to_double :: "rat \<Rightarrow> rat" where
  "to_double x =
     (if x = 0 then 0
      else let ulp = pow2 (exponent_of \<bar>x\<bar> - 52)
           in sgn x * of_int (round_half_even (\<bar>x\<bar> / ulp)) * ulp)"

text \<open>\<^verbatim>\<open>a + b\<close>, \<^verbatim>\<open>a * b\<close> and \<^verbatim>\<open>a / b\<close> (for a divisor that is not 0) on doubles.\<close>

definition dbl_add :: "rat \<Rightarrow> rat \<Rightarrow> rat" where
  "dbl_add a b = to_double (a + b)"

definition dbl_mul :: "rat \<Rightarrow> rat \<Rightarrow> rat" where
  "dbl_mul a b = to_double (a * b)"

definition dbl_div :: "rat \<Rightarrow> rat \<Rightarrow> rat" where
  "dbl_div a b = to_double (a / b)"


subsection \<open>Progress\<close>

text \<open>
  \<^verbatim>\<open>updateProgress(subStep, subProgress)\<close>, a closure over \<open>engineCount\<close>,
  \<open>engineIndex\<close> and the counter \<open>completedSteps\<close>. \<open>progress_of\<close> is the number it
  stores: every operation is rounded to a double, in the order the source writes them,
  and \<^verbatim>\<open>Math.round\<close> rounds that double to an integer, a tie upwards, as \<open>round\<close> does.
  The closure is only called inside the loop over the engines, where \<open>engineCount\<close> is
  not 0.
\<close>

definition progress_of :: "nat \<Rightarrow> nat \<Rightarrow> nat \<Rightarrow> rat \<Rightarrow> int" where
  "progress_of engineCount engineIndex subStep subProgress =
     (let engineWeight = dbl_div 1 (of_nat engineCount);
          baseProgress = dbl_mul (of_nat engineIndex) engineWeight;
          stepProgress = dbl_div (dbl_mul (dbl_add (of_nat subStep) subProgress) engineWeight) 2
      in round (dbl_mul (dbl_add baseProgress stepProgress) 100))"

definition updateProgress :: "nat \<Rightarrow> nat \<Rightarrow> nat \<Rightarrow> nat \<Rightarrow> rat \<Rightarrow> task \<Rightarrow> task" where
  "updateProgress engineCount engineIndex completed subStep subProgress t =
     t\<lparr>progress := progress_of engineCount engineIndex subStep subProgress,
       completedSteps := completed\<rparr>"

subsection \<open>The job\<close>

text \<open>\<^verbatim>\<open>Poisk v \<close> (transliterated).\<close>

definition TEXT_SEARCH_IN :: jsstring where
  "TEXT_SEARCH_IN =
     [1055, 1086, 1080, 1089, 1082, 32, 1074, 32]"

text \<open>\<^verbatim>\<open>Analiz tonal*nosti \<close> (transliterated).\<close>

definition TEXT_SENTIMENT_OF :: jsstring where
  "TEXT_SENTIMENT_OF =
     [1040, 1085, 1072, 1083, 1080, 1079, 32, 1090, 1086, 1085, 1072, 1083, 1100, 1085,
      1086, 1089, 1090, 1080, 32]"

text \<open>\<^verbatim>\<open>Yandeks\<close> (transliterated).\<close>

definition TEXT_YANDEX :: jsstring where
  "TEXT_YANDEX =
     [1071, 1085, 1076, 1077, 1082, 1089]"

text \<open>\<^verbatim>\<open>Google\<close> (transliterated).\<close>

definition TEXT_GOOGLE :: jsstring where
  "TEXT_GOOGLE =
     [71, 111, 111, 103, 108, 101]"

text \<open>\<^verbatim>\<open>Raschet metrik...\<close> (transliterated).\<close>

definition TEXT_METRICS_START :: jsstring where
  "TEXT_METRICS_START =
     [1056, 1072, 1089, 1095, 1077, 1090, 32, 1084, 1077, 1090, 1088, 1080, 1082, 46,
      46, 46]"

text \<open>\<^verbatim>\<open>Metriki rasschitany\<close> (transliterated).\<close>

definition TEXT_METRICS_DONE :: jsstring where
  "TEXT_METRICS_DONE =
     [1052, 1077, 1090, 1088, 1080, 1082, 1080, 32, 1088, 1072, 1089, 1089, 1095, 1080,
      1090, 1072, 1085, 1099]"

text \<open>\<^verbatim>\<open>Sokhranenie rezul*tatov...\<close> (transliterated).\<close>

definition TEXT_SAVING :: jsstring where
  "TEXT_SAVING =
     [1057, 1086, 1093, 1088, 1072, 1085, 1077, 1085, 1080, 1077, 32, 1088, 1077, 1079,
      1091, 1083, 1100, 1090, 1072, 1090, 1086, 1074, 46, 46, 46]"

text \<open>\<^verbatim>\<open>Zaversheno\<close> (transliterated).\<close>

definition TEXT_DONE :: jsstring where
  "TEXT_DONE =
     [1047, 1072, 1074, 1077, 1088, 1096, 1077, 1085, 1086]"

text \<open>\<^verbatim>\<open>Oshibka\<close> (transliterated).\<close>

definition TEXT_ERROR :: jsstring where
  "TEXT_ERROR =
     [1054, 1096, 1080, 1073, 1082, 1072]"

text \<open>
  What an awaited call comes to: it throws (with the error's message) or returns. One
  run of \<^verbatim>\<open>realSearchWithProgress\<close> is the progress events it reports through its
  callback, in order, and then its outcome.
\<close>

datatype 'a attempt = Throws jsstring | Returns 'a

record search_run =
  events :: "(rat \<times> jsstring) list"
  outcome :: "search_result list attempt"

type_synonym provider = "nat \<Rightarrow> jsstring \<Rightarrow> search_run"

definition engineName :: "jsstring \<Rightarrow> jsstring" where
  "engineName engine = (if engine = STR_google then TEXT_GOOGLE else TEXT_YANDEX)"

text \<open>
  A status request can read the task between any two steps of the job. To speak of what
  such reads can see, the job is run on the task together with a record of the values its
  progress updates have written so far, oldest first. The record is not part of the
  program: nothing the job does depends on it.
\<close>

type_synonym observed = "task \<times> int list"

text \<open>A call of \<^verbatim>\<open>updateProgress\<close>, recorded; and an assignment to \<^verbatim>\<open>task.currentStep\<close>.\<close>

definition report :: "(task \<Rightarrow> task) \<Rightarrow> observed \<Rightarrow> observed" where
  "report update ob = (let t = update (fst ob) in (t, snd ob @ [progress t]))"

definition relabel :: "jsstring \<Rightarrow> observed \<Rightarrow> observed" where
  "relabel step ob = ((fst ob)\<lparr>currentStep := step\<rparr>, snd ob)"

text \<open>The callback handed to the search: label the step, then update the progress.\<close>

definition on_search_progress ::
  "nat \<Rightarrow> nat \<Rightarrow> nat \<Rightarrow> jsstring \<Rightarrow> rat \<times> jsstring \<Rightarrow> observed \<Rightarrow> observed" where
  "on_search_progress engineCount engineIndex completed engine ev ob =
     report (updateProgress engineCount engineIndex completed 0 (fst ev))
       (relabel (engineName engine @ [58, 32] @ snd ev) ob)"

text \<open>
  \<^verbatim>\<open>calculateMetricsWithProgress\<close> with the job's callback: two reports around the
  call of \<^verbatim>\<open>calculateMetrics\<close>.
\<close>

definition on_analysis_progress ::
  "nat \<Rightarrow> nat \<Rightarrow> nat \<Rightarrow> jsstring \<Rightarrow> rat \<times> jsstring \<Rightarrow> observed \<Rightarrow> observed" where
  "on_analysis_progress engineCount engineIndex completed engine ev ob =
     report (updateProgress engineCount engineIndex completed 1 (fst ev))
       (relabel (engineName engine @ [58, 32] @ snd ev) ob)"

definition calculateMetricsWithProgress ::
  "search_result list \<Rightarrow> (rat \<times> jsstring \<Rightarrow> observed \<Rightarrow> observed) \<Rightarrow> observed \<Rightarrow>
   metrics \<times> observed" where
  "calculateMetricsWithProgress rs onProgress ob =
     (let ob = onProgress (0, TEXT_METRICS_START) ob;
          m = calculateMetrics rs;
          ob = onProgress (1, TEXT_METRICS_DONE) ob
      in (m, ob))"

text \<open>
  The loop over \<^verbatim>\<open>entity.engines\<close>, from \<open>engineIndex\<close> on: \<open>todo\<close> are the engines
  still to run. A throw leaves the loop with the message; the store is not among the
  things the loop touches.
\<close>

fun run_engines ::
  "provider \<Rightarrow> nat \<Rightarrow> jsstring list \<Rightarrow> nat \<Rightarrow> nat \<Rightarrow> parsing \<Rightarrow> observed \<Rightarrow>
   (parsing \<times> nat) attempt \<times> observed" where
  "run_engines search engineCount [] engineIndex completed parsingResults ob =
     (Returns (parsingResults, completed), ob)"
| "run_engines search engineCount (engine # todo) engineIndex completed parsingResults ob =
     (let ob = relabel (TEXT_SEARCH_IN @ engineName engine @ [46, 46, 46]) ob;
          ob = report (updateProgress engineCount engineIndex completed 0 0) ob;
          run = search engineIndex engine;
          ob = fold (on_search_progress engineCount engineIndex completed engine) (events run) ob
      in case outcome run of
           Throws message \<Rightarrow> (Throws message, ob)
         | Returns rs \<Rightarrow>
             (let completed = completed + 1;
                  ob = report (updateProgress engineCount engineIndex completed 1 0) ob;
                  ob = relabel (TEXT_SENTIMENT_OF @ engineName engine @ [46, 46, 46]) ob;
                  (m, ob) = calculateMetricsWithProgress rs
                              (on_analysis_progress engineCount engineIndex completed engine) ob;
                  completed = completed + 1;
                  ob = report (updateProgress engineCount engineIndex completed 2 0) ob;
                  parsingResults = parsingResults\<lparr>parsing_engines :=
                     AList.update engine \<lparr>results = rs, engine_metrics = m\<rparr>
                       (parsing_engines parsingResults)\<rparr>
              in run_engines search engineCount todo (engineIndex + 1) completed parsingResults ob))"

text \<open>
  \<^verbatim>\<open>freshEntity.parsings.push(parsingResults)\<close> on the entity that the two
  \<^verbatim>\<open>find\<close> calls reach: the first project with the id, and in it the first entity with
  the id. Nothing is found, and nothing written, when either is missing.
\<close>

fun update_first :: "('a \<Rightarrow> bool) \<Rightarrow> ('a \<Rightarrow> 'a) \<Rightarrow> 'a list \<Rightarrow> 'a list" where
  "update_first P f [] = []"
| "update_first P f (x # xs) = (if P x then f x # xs else x # update_first P f xs)"

definition push_parsing :: "jsstring \<Rightarrow> jsstring \<Rightarrow> parsing \<Rightarrow> store \<Rightarrow> store option" where
  "push_parsing pid eid parsingResults freshProjects =
     (case find (\<lambda>p. project_id p = pid) freshProjects of
        None \<Rightarrow> None
      | Some freshProject \<Rightarrow>
          (case find (\<lambda>e. entity_id e = eid) (entities freshProject) of
             None \<Rightarrow> None
           | Some freshEntity \<Rightarrow>
               Some (update_first (\<lambda>p. project_id p = pid)
                      (\<lambda>p. p\<lparr>entities := update_first (\<lambda>e. entity_id e = eid)
                                (\<lambda>e. e\<lparr>parsings := parsings e @ [parsingResults]\<rparr>) (entities p)\<rparr>)
                      freshProjects)))"

text \<open>
  The body of the job for the task \<open>t\<close> of the entity \<open>e\<close> that the handler found. The
  ids and time stamps it draws are parameters, as are the provider and \<open>saveFault\<close>:
  the message \<^verbatim>\<open>saveProjects\<close> throws with, if it throws; the file is then taken to be
  as it was. The result is the task at the end and the store at the end.
\<close>

definition new_parsing :: "jsstring \<Rightarrow> jsstring \<Rightarrow> region_seen \<Rightarrow> parsing" where
  "new_parsing newId now info =
     \<lparr>parsing_id = newId, date = now,
      parsing_region_code = seen_code info, parsing_region_name = seen_name info,
      parsing_engines = []\<rparr>"

definition run_job ::
  "provider \<Rightarrow> jsstring option \<Rightarrow> jsstring \<Rightarrow> jsstring \<Rightarrow> jsstring \<Rightarrow> region_seen \<Rightarrow>
   entity \<Rightarrow> task \<Rightarrow> store \<Rightarrow> task \<times> store" where
  "run_job search saveFault newId now finished info e t projects =
     (case run_engines search (length (engines e)) (engines e) 0 0
             (new_parsing newId now info) (t, []) of
        (Throws message, ob) \<Rightarrow>
          ((fst ob)\<lparr>status := Error, error := Some message, currentStep := TEXT_ERROR\<rparr>, projects)
      | (Returns (parsingResults, completed), ob) \<Rightarrow>
          (let t = (fst ob)\<lparr>currentStep := TEXT_SAVING\<rparr>;
               saved = push_parsing (projectId t) (entityId t) parsingResults projects
           in case (saved, saveFault) of
                (Some freshProjects, Some message) \<Rightarrow>
                  (t\<lparr>status := Error, error := Some message, currentStep := TEXT_ERROR\<rparr>, projects)
              | _ \<Rightarrow>
                  (t\<lparr>completedSteps := completed + 1, progress := 100, status := Completed,
                     currentStep := TEXT_DONE, result := Some parsingResults,
                     completedAt := Some finished\<rparr>,
                   case saved of None \<Rightarrow> projects | Some freshProjects \<Rightarrow> freshProjects)))"


text \<open>The job as it acts on the registry: the task is read, run, and written back.\<close>

definition background_job ::
  "provider \<Rightarrow> jsstring option \<Rightarrow> jsstring \<Rightarrow> jsstring \<Rightarrow> jsstring \<Rightarrow> region_seen \<Rightarrow>
   entity \<Rightarrow> jsstring \<Rightarrow> registry \<times> store \<Rightarrow> registry \<times> store" where
  "background_job search saveFault newId now finished info e taskId st =
     (case map_of (fst st) taskId of
        None \<Rightarrow> st
      | Some t \<Rightarrow>
          (let (t, projects) = run_job search saveFault newId now finished info e t (snd st)
           in (AList.update taskId t (fst st), projects)))"

section \<open>Derived notions and sample inputs\<close>











text \<open>
  Sample inputs, used to run the functions above on concrete values: a result with a
  given sentiment, a list of fifteen neutral results as the renumbering step leaves them,
  a few words, titles made of them, a backend that always fails, and a store, a registry
  and three providers for the orchestrator.
\<close>

definition sample_result :: "sentiment \<Rightarrow> search_result" where
  "sample_result s = \<lparr>position = 0, url = [], title = None, snippet = None, domain = [],
     sentiment = s, ctr = 0\<rparr>"

definition fifteen :: "search_result list" where
  "fifteen = renumber (replicate 15 (sample_result Neutral))"

definition fifteen_changed :: "search_result list" where
  "fifteen_changed = fifteen[12 := (fifteen ! 12)\<lparr>sentiment := Positive\<rparr>]"

text \<open>\<^verbatim>\<open>ne\<close> (transliterated).\<close>

definition W_NE :: jsstring where
  "W_NE =
     [1085, 1077]"

text \<open>\<^verbatim>\<open>khoroshij\<close> (transliterated).\<close>

definition W_HOROSHIJ :: jsstring where
  "W_HOROSHIJ =
     [1093, 1086, 1088, 1086, 1096, 1080, 1081]"

text \<open>\<^verbatim>\<open>dom\<close> (transliterated).\<close>

definition W_DOM :: jsstring where
  "W_DOM =
     [1076, 1086, 1084]"




definition negated_title :: "jsstring option" where
  "negated_title = Some (W_NE @ [32] @ W_HOROSHIJ)"

definition plain_title :: "jsstring option" where
  "plain_title = Some W_HOROSHIJ"



definition failing_client :: client where
  "failing_client = (\<lambda>ttl snip link. ApiError [116, 105, 109, 101, 111, 117, 116])"

definition sample_entity :: entity where
  "sample_entity = \<lparr>entity_id = [101, 49], entity_name = [110], engines = [STR_google, [121]],
     depth = 10, parsings = []\<rparr>"

definition sample_store :: store where
  "sample_store = [\<lparr>project_id = [112, 49], project_region = None, entities = [sample_entity]\<rparr>]"

definition sample_task :: task where
  "sample_task = \<lparr>projectId = [112, 49], entityId = [101, 49], entityName = [110],
     status = Running, progress = 0, currentStep = TEXT_INIT, totalSteps = 5, completedSteps = 0,
     result = None, error = None, startedAt = [48], completedAt = None\<rparr>"

definition sample_registry :: registry where
  "sample_registry = [([116, 48], sample_task\<lparr>entityId := [101, 50]\<rparr>), ([116, 49], sample_task)]"

definition failing_provider :: provider where
  "failing_provider = (\<lambda>engineIndex engine.
     if engineIndex = 0 then \<lparr>events = [(1 / 2, [120])], outcome = Returns []\<rparr>
     else \<lparr>events = [], outcome = Throws [98, 111, 111, 109]\<rparr>)"

definition working_provider :: provider where
  "working_provider = (\<lambda>engineIndex engine. \<lparr>events = [], outcome = Returns []\<rparr>)"


section \<open>Properties of the metrics aggregator\<close>

subsection \<open>Evaluating the pieces\<close>

lemma toFixed1_values:
  "toFixed1 100 = ''100.0''" "toFixed1 0 = ''0.0''" "toFixed1 (175 / 2) = ''87.5''"
  "toFixed1 50 = ''50.0''"
  by code_simp+

lemma top10_table: "map ctr_for [1..<11] = [30, 20, 14, 10, 7, 6, 5, 4, 5 / 2, 3 / 2]"
  by code_simp

lemma top10_sum:
  assumes "map ctr rs = map ctr_for [1..<11]"
  shows "take 10 rs = rs" and "sum_list (map ctr rs) = 100"
proof -
  have "length (map ctr rs) = 10" unfolding assms by simp
  then show "take 10 rs = rs" by simp
  show "sum_list (map ctr rs) = 100" unfolding assms top10_table by simp
qed

lemma fold_add_result_positive:
  "\<forall>r\<in>set xs. sentiment r = Positive \<Longrightarrow>
   fold add_result xs w =
     w\<lparr>totalCTR := totalCTR w + sum_list (map ctr xs),
       positiveWeight := positiveWeight w + sum_list (map ctr xs),
       score := score w + sum_list (map ctr xs)\<rparr>"
  by (induction xs arbitrary: w) (simp_all add: add_result_def Let_def algebra_simps)

lemma fold_add_result_negative:
  "\<forall>r\<in>set xs. sentiment r = Negative \<Longrightarrow>
   fold add_result xs w =
     w\<lparr>totalCTR := totalCTR w + sum_list (map ctr xs),
       negativeWeight := negativeWeight w + sum_list (map ctr xs),
       score := score w - sum_list (map ctr xs)\<rparr>"
  by (induction xs arbitrary: w) (simp_all add: add_result_def Let_def algebra_simps)

lemma fold_add_result_neutral:
  "\<forall>r\<in>set xs. sentiment r = Neutral \<Longrightarrow>
   fold add_result xs w =
     w\<lparr>totalCTR := totalCTR w + sum_list (map ctr xs),
       neutralWeight := neutralWeight w + sum_list (map ctr xs),
       score := score w + sum_list (map ctr xs) * (3 / 4)\<rparr>"
  by (induction xs arbitrary: w) (simp_all add: add_result_def Let_def algebra_simps)

lemma renumber_ctr: "map ctr (renumber (replicate 10 (sample_result s))) = map ctr_for [1..<11]"
  by code_simp

lemma renumber_sentiment: "\<forall>r\<in>set (renumber (replicate 10 (sample_result s))). sentiment r = s"
  by (auto simp: renumber_def sample_result_def in_set_enumerate_eq)

lemma same_top10:
  assumes "length rs' = length rs"
    and "\<forall>i<length rs. rs' ! i = (rs ! i)\<lparr>sentiment := sentiment (rs' ! i)\<rparr>"
    and "\<forall>i<10. i < length rs \<longrightarrow> sentiment (rs' ! i) = sentiment (rs ! i)"
  shows "take 10 rs' = take 10 rs"
proof (rule nth_equalityI)
  show "length (take 10 rs') = length (take 10 rs)" using assms(1) by simp
next
  fix i assume "i < length (take 10 rs')"
  then have i: "i < 10" "i < length rs" using assms(1) by simp_all
  with assms(2) have "rs' ! i = (rs ! i)\<lparr>sentiment := sentiment (rs' ! i)\<rparr>" by blast
  also have "sentiment (rs' ! i) = sentiment (rs ! i)" using assms(3) i by blast
  finally have "rs' ! i = rs ! i" by simp
  with i assms(1) show "take 10 rs' ! i = take 10 rs ! i" by simp
qed

lemma fifteen_values:
  "positiveCount (calculateMetrics fifteen_changed) = 1"
  "neutralCount (calculateMetrics fifteen_changed) = 14"
  "positiveCount (calculateMetrics fifteen) = 0"
  "neutralCount (calculateMetrics fifteen) = 15"
  "rating (calculateMetrics fifteen) = ''87.5''"
  "riskLevel (calculateMetrics fifteen) = Low"
  "length fifteen = 15"
  "length fifteen_changed = 15"
  by code_simp+

lemma fifteen_differs:
  "\<forall>i<15. fifteen_changed ! i = (fifteen ! i)\<lparr>sentiment := sentiment (fifteen_changed ! i)\<rparr>"
  "\<forall>i<10. sentiment (fifteen_changed ! i) = sentiment (fifteen ! i)"
  using fifteen_values(7) by (simp_all add: fifteen_changed_def nth_list_update)

subsection \<open>Uniform top ten\<close>

text \<open>
  Claim C2. A list of ten classified results that carries the weights of the CTR table
  for positions 1 to 10 (they sum to 100) is rated \<open>100.0\<close> when every sentiment is
  positive, \<open>0.0\<close> when every sentiment is negative and \<open>87.5\<close> when every
  sentiment is neutral: the rating is (score + 100) / 2 printed with one decimal.
\<close>

theorem rating_uniform_top10:
  assumes "map ctr rs = map ctr_for [1..<11]"
  shows "((\<forall>r\<in>set rs. sentiment r = Positive) \<longrightarrow> rating (calculateMetrics rs) = ''100.0'') \<and>
         ((\<forall>r\<in>set rs. sentiment r = Negative) \<longrightarrow> rating (calculateMetrics rs) = ''0.0'') \<and>
         ((\<forall>r\<in>set rs. sentiment r = Neutral) \<longrightarrow> rating (calculateMetrics rs) = ''87.5'')"
  using top10_sum [OF assms]
  by (simp add: calculateMetrics_def top10_weights_def weights0_def Let_def
      fold_add_result_positive fold_add_result_negative fold_add_result_neutral toFixed1_values)

theorem rating_uniform_top10_witness:
  "rating (calculateMetrics (renumber (replicate 10 (sample_result Positive)))) = ''100.0'' \<and>
   rating (calculateMetrics (renumber (replicate 10 (sample_result Negative)))) = ''0.0'' \<and>
   rating (calculateMetrics (renumber (replicate 10 (sample_result Neutral)))) = ''87.5''"
  using rating_uniform_top10 [OF renumber_ctr [of Positive]]
        rating_uniform_top10 [OF renumber_ctr [of Negative]]
        rating_uniform_top10 [OF renumber_ctr [of Neutral]]
        renumber_sentiment [of Positive] renumber_sentiment [of Negative] renumber_sentiment [of Neutral]
  by blast

subsection \<open>The tail does not count\<close>

text \<open>
  Claim C3. Take a list of fifteen results and a second list that differs from it only
  in sentiments, and only at positions 11 to 15 (indices 10 to 14). The second list has
  the rating, the risk level and the three percentages of the first; its three counts
  are those of the whole second list, so they may differ from those of the first.
\<close>

theorem tail_sentiment_frame:
  assumes "length rs = 15" and "length rs' = 15"
    and "\<forall>i<15. rs' ! i = (rs ! i)\<lparr>sentiment := sentiment (rs' ! i)\<rparr>"
    and "\<forall>i<10. sentiment (rs' ! i) = sentiment (rs ! i)"
  shows "rating (calculateMetrics rs') = rating (calculateMetrics rs) \<and>
         riskLevel (calculateMetrics rs') = riskLevel (calculateMetrics rs) \<and>
         positivePercent (calculateMetrics rs') = positivePercent (calculateMetrics rs) \<and>
         negativePercent (calculateMetrics rs') = negativePercent (calculateMetrics rs) \<and>
         neutralPercent (calculateMetrics rs') = neutralPercent (calculateMetrics rs) \<and>
         positiveCount (calculateMetrics rs') = length (filter (\<lambda>r. sentiment r = Positive) rs') \<and>
         negativeCount (calculateMetrics rs') = length (filter (\<lambda>r. sentiment r = Negative) rs') \<and>
         neutralCount (calculateMetrics rs') = length (filter (\<lambda>r. sentiment r = Neutral) rs')"
proof -
  have "take 10 rs' = take 10 rs"
    using assms by (intro same_top10) simp_all
  then show ?thesis by (simp add: calculateMetrics_def Let_def top10_weights_def)
qed

theorem tail_sentiment_frame_witness:
  "rating (calculateMetrics fifteen_changed) = ''87.5'' \<and>
   riskLevel (calculateMetrics fifteen_changed) = Low \<and>
   positiveCount (calculateMetrics fifteen_changed) = 1 \<and>
   positiveCount (calculateMetrics fifteen) = 0"
  using tail_sentiment_frame [OF fifteen_values(7,8) fifteen_differs] fifteen_values by simp

subsection \<open>The empty list\<close>

text \<open>
  Claim C10. On the empty list the aggregator returns rating \<open>50.0\<close>, the three
  percentages \<open>0.0\<close>, all counts 0 and risk level low. The ratio of negative weight
  to total weight is 0/0, which is NaN, and both threshold comparisons on it are false.
\<close>

theorem empty_list_metrics:
  "calculateMetrics [] =
     \<lparr>totalResults = 0, positiveCount = 0, negativeCount = 0, neutralCount = 0,
      positivePercent = ''0.0'', negativePercent = ''0.0'', neutralPercent = ''0.0'',
      rating = ''50.0'', balance = ''50.0'', scoreText = ''0.0'', riskLevel = Low\<rparr> \<and>
   negativeRatio (top10_weights []) = NaN \<and>
   \<not> js_gt (negativeRatio (top10_weights [])) (1 / 2) \<and>
   \<not> js_gt (negativeRatio (top10_weights [])) (3 / 10)"
  by code_simp

section \<open>Properties of the lexical classifier\<close>

subsection \<open>Words without a match\<close>

lemma score_word_no_match:
  "first_match SENTIMENT_WORDS_positive (ws ! i) = None \<Longrightarrow>
   first_match SENTIMENT_WORDS_negative (ws ! i) = None \<Longrightarrow> score_word ws i s = s"
  by (simp add: score_word_def score_positive_def score_negative_def)

lemma fold_score_word_no_match:
  assumes "\<forall>w\<in>set ws. first_match SENTIMENT_WORDS_positive w = None \<and>
             first_match SENTIMENT_WORDS_negative w = None"
    and "\<forall>i\<in>set js. i < length ws"
  shows "fold (score_word ws) js s = s"
  using assms(2)
proof (induction js arbitrary: s)
  case Nil
  then show ?case by simp
next
  case (Cons j js)
  then have "ws ! j \<in> set ws" by simp
  with assms(1) have "score_word ws j s = s" by (simp add: score_word_no_match)
  with Cons show ?case by simp
qed

lemma word_scores_no_match:
  assumes "\<forall>w\<in>set ws. first_match SENTIMENT_WORDS_positive w = None \<and>
             first_match SENTIMENT_WORDS_negative w = None"
  shows "word_scores ws = \<lparr>positiveScore = 0, negativeScore = 0\<rparr>"
  unfolding word_scores_def by (rule fold_score_word_no_match [OF assms]) simp

lemma decide_cases:
  "decide s =
     (if positiveScore s + negativeScore s = 0 then Neutral
      else if 3 / 10 < (positiveScore s - negativeScore s) / (positiveScore s + negativeScore s) then Positive
      else if (positiveScore s - negativeScore s) / (positiveScore s + negativeScore s) < - (3 / 10) then Negative
      else Neutral)"
  by (simp add: decide_def Let_def)

lemma decide_by_ratio:
  assumes "positiveScore s + negativeScore s \<noteq> 0"
  shows "(decide s = Positive \<longleftrightarrow>
           3 / 10 < (positiveScore s - negativeScore s) / (positiveScore s + negativeScore s)) \<and>
         (decide s = Negative \<longleftrightarrow>
           (positiveScore s - negativeScore s) / (positiveScore s + negativeScore s) < - (3 / 10)) \<and>
         (decide s = Neutral \<longleftrightarrow>
           \<not> 3 / 10 < (positiveScore s - negativeScore s) / (positiveScore s + negativeScore s) \<and>
           \<not> (positiveScore s - negativeScore s) / (positiveScore s + negativeScore s) < - (3 / 10))"
proof -
  obtain d where d: "d = (positiveScore s - negativeScore s) / (positiveScore s + negativeScore s)"
    by simp
  have "decide s = (if 3 / 10 < d then Positive else if d < - (3 / 10) then Negative else Neutral)"
    using assms unfolding d by (simp only: decide_cases if_False)
  moreover have "\<not> (3 / 10 < d \<and> d < - (3 / 10))" by linarith
  ultimately show ?thesis unfolding d [symmetric] by auto
qed

lemma empty_domain_bias: "domainBias [] = 0"
  by (simp add: domainBias_def DOMAIN_BIAS_def)

lemma sample_words:
  "words_of (sentiment_text negated_title None) = [] @ W_NE # [W_HOROSHIJ]"
  "words_of (sentiment_text plain_title None) = [] @ [W_HOROSHIJ]"
  by (simp_all add: negated_title_def plain_title_def W_NE_def W_HOROSHIJ_def words_of_def
      sentiment_text_def padded_def toLowerCase_def toLowerCase_unit_def split_text_def is_word_unit_def)

lemma sample_matches:
  "first_match SENTIMENT_WORDS_positive W_HOROSHIJ = Some (W_HOROSHIJ, 1)"
  "first_match SENTIMENT_WORDS_negative W_HOROSHIJ = None"
  "W_NE \<in> set NEGATION_WORDS"
  by (simp_all add: W_HOROSHIJ_def W_NE_def first_match_def SENTIMENT_WORDS_positive_def
      SENTIMENT_WORDS_negative_def NEGATION_WORDS_def)

lemma neutral_sample:
  "list_all (\<lambda>w. first_match SENTIMENT_WORDS_positive w = None \<and>
                  first_match SENTIMENT_WORDS_negative w = None)
      (words_of (sentiment_text (Some W_DOM) None)) \<and> domainBias [] = 0"
  by (simp add: W_DOM_def words_of_def sentiment_text_def padded_def toLowerCase_def
      toLowerCase_unit_def split_text_def is_word_unit_def first_match_def
      SENTIMENT_WORDS_positive_def SENTIMENT_WORDS_negative_def empty_domain_bias)

lemma plain_scores:
  "final_scores plain_title None [] = \<lparr>positiveScore = 1, negativeScore = 0\<rparr>"
  by (simp add: final_scores_def sample_words(2) word_scores_def score_word_def
      score_positive_def score_negative_def sample_matches hasNegation_def slice_def
      add_bias_def empty_domain_bias)

text \<open>
  Claim C6. When no word of the text matches a stem of either dictionary and the
  domain has no bias, the classifier returns neutral. In general, with the total of the
  positive and the negative score: a total of 0 gives neutral; otherwise the result is
  positive exactly when (positiveScore - negativeScore) / total exceeds 0.3, negative
  exactly when it is below -0.3, and neutral exactly when it is neither.
\<close>

theorem classifier_decision:
  "(list_all (\<lambda>w. first_match SENTIMENT_WORDS_positive w = None \<and>
                  first_match SENTIMENT_WORDS_negative w = None)
      (words_of (sentiment_text ttl snip)) \<and> domainBias site = 0
    \<longrightarrow> analyzeSentiment ttl snip site = Neutral) \<and>
   (positiveScore (final_scores ttl snip site) + negativeScore (final_scores ttl snip site) = 0
    \<longrightarrow> analyzeSentiment ttl snip site = Neutral) \<and>
   (positiveScore (final_scores ttl snip site) + negativeScore (final_scores ttl snip site) \<noteq> 0
    \<longrightarrow> (analyzeSentiment ttl snip site = Positive \<longleftrightarrow>
           3 / 10 < (positiveScore (final_scores ttl snip site) - negativeScore (final_scores ttl snip site))
                    / (positiveScore (final_scores ttl snip site) + negativeScore (final_scores ttl snip site))) \<and>
        (analyzeSentiment ttl snip site = Negative \<longleftrightarrow>
           (positiveScore (final_scores ttl snip site) - negativeScore (final_scores ttl snip site))
             / (positiveScore (final_scores ttl snip site) + negativeScore (final_scores ttl snip site)) < - (3 / 10)) \<and>
        (analyzeSentiment ttl snip site = Neutral \<longleftrightarrow>
           \<not> 3 / 10 < (positiveScore (final_scores ttl snip site) - negativeScore (final_scores ttl snip site))
                      / (positiveScore (final_scores ttl snip site) + negativeScore (final_scores ttl snip site)) \<and>
           \<not> (positiveScore (final_scores ttl snip site) - negativeScore (final_scores ttl snip site))
               / (positiveScore (final_scores ttl snip site) + negativeScore (final_scores ttl snip site)) < - (3 / 10)))"
proof (intro conjI impI)
  assume h: "list_all (\<lambda>w. first_match SENTIMENT_WORDS_positive w = None \<and>
                  first_match SENTIMENT_WORDS_negative w = None)
      (words_of (sentiment_text ttl snip)) \<and> domainBias site = 0"
  then have "word_scores (words_of (sentiment_text ttl snip)) = \<lparr>positiveScore = 0, negativeScore = 0\<rparr>"
    by (intro word_scores_no_match) (simp add: list_all_iff)
  with h show "analyzeSentiment ttl snip site = Neutral"
    by (simp add: analyzeSentiment_def final_scores_def add_bias_def decide_cases)
next
  assume "positiveScore (final_scores ttl snip site) + negativeScore (final_scores ttl snip site) = 0"
  then show "analyzeSentiment ttl snip site = Neutral"
    by (simp add: analyzeSentiment_def decide_cases)
qed (insert decide_by_ratio [of "final_scores ttl snip site"], unfold analyzeSentiment_def, blast+)

theorem classifier_decision_witness:
  "analyzeSentiment (Some W_DOM) None [] = Neutral \<and>
   analyzeSentiment plain_title None [] = Positive"
  using classifier_decision [of "Some W_DOM" None "[]"] neutral_sample
    classifier_decision [of plain_title None "[]"] plain_scores
  by simp

subsection \<open>Negation\<close>
































subsection \<open>Empty input\<close>

lemma empty_input_words:
  assumes "or_empty ttl = []" and "or_empty snip = []"
  shows "words_of (sentiment_text ttl snip) = []"
    and "words_of (toLowerCase (padded ttl snip)) = []"
  using assms
  by (simp_all add: words_of_def sentiment_text_def padded_def toLowerCase_def toLowerCase_unit_def
      split_text_def is_word_unit_def)

lemma text_neutral_not_empty: "TEXT_NEUTRAL \<noteq> []"
  by (simp add: TEXT_NEUTRAL_def)

lemma empty_input_classification:
  assumes "or_empty ttl = []" and "or_empty snip = []" and "domainBias site = 0"
  shows "analyzeSentiment ttl snip site = Neutral"
    and "generateSentimentExplanation ttl snip site Neutral = TEXT_NEUTRAL"
proof -
  show "analyzeSentiment ttl snip site = Neutral"
    using assms(3)
    by (simp add: analyzeSentiment_def final_scores_def empty_input_words(1) [OF assms(1,2)]
        word_scores_def add_bias_def decide_cases)
  show "generateSentimentExplanation ttl snip site Neutral = TEXT_NEUTRAL"
    by (simp add: generateSentimentExplanation_def empty_input_words(2) [OF assms(1,2)]
        found_markers_def by_weight_def Let_def)
qed

text \<open>
  Claim C7, as the code has it. The classifier is a total function. For a title and a
  snippet that are each empty, null or undefined, and a domain without bias (the empty
  domain is one), it returns neutral, and the explanation generated for that result is
  the fixed text for a neutral publication without markers, which is not empty.
\<close>

theorem empty_input_neutral:
  assumes "or_empty ttl = []" and "or_empty snip = []" and "domainBias site = 0"
  shows "analyzeSentiment ttl snip site = Neutral \<and>
         generateSentimentExplanation ttl snip site (analyzeSentiment ttl snip site) = TEXT_NEUTRAL \<and>
         TEXT_NEUTRAL \<noteq> []"
  using empty_input_classification [OF assms] text_neutral_not_empty by simp

theorem empty_input_neutral_witness:
  "analyzeSentiment None (Some []) [] = Neutral \<and>
   generateSentimentExplanation None (Some []) [] (analyzeSentiment None (Some []) []) = TEXT_NEUTRAL"
  using empty_input_neutral [of None "Some []" "[]"] empty_domain_bias by auto

text \<open>
  The claim as first stated, with an empty explanation, fails on the input where title
  and snippet are missing and the domain is empty.
\<close>

theorem empty_input_explanation_counterexample:
  "\<not> (analyzeSentiment None None [] = Neutral \<and>
      generateSentimentExplanation None None [] (analyzeSentiment None None []) = [])"
proof -
  have "generateSentimentExplanation None None [] (analyzeSentiment None None []) = TEXT_NEUTRAL"
    using empty_input_classification [of None None "[]"] empty_domain_bias by simp
  then show ?thesis using text_neutral_not_empty by simp
qed

section \<open>Properties of the classifier adapter\<close>

text \<open>
  Claim C8. Without a client the adapter returns the lexical classifier's sentiment for
  the title and the snippet (called, as the source does, without a domain), the fixed
  explanation that marks the local analysis, and confidence 0.5. When the call of the
  backend fails with a message, it returns the lexical classifier's sentiment again, an
  explanation made of a fixed prefix followed by the message, and confidence 0.3.
\<close>

theorem adapter_fallback:
  "analyzeSentimentWithClaude None ttl snip link =
     \<lparr>verdict = analyzeSentiment ttl snip [], explanation = TEXT_LOCAL_NOT_CONFIGURED,
      confidence = 1 / 2\<rparr> \<and>
   (create ttl snip link = ApiError message \<longrightarrow>
      analyzeSentimentWithClaude (Some create) ttl snip link =
        \<lparr>verdict = analyzeSentiment ttl snip [], explanation = TEXT_CLAUDE_ERROR @ message,
         confidence = 3 / 10\<rparr>)"
  by (simp add: analyzeSentimentWithClaude_def)

theorem adapter_fallback_witness:
  "analyzeSentimentWithClaude (Some failing_client) plain_title None None =
     \<lparr>verdict = analyzeSentiment plain_title None [],
      explanation = TEXT_CLAUDE_ERROR @ [116, 105, 109, 101, 111, 117, 116],
      confidence = 3 / 10\<rparr>"
  using adapter_fallback [of plain_title None None failing_client "[116, 105, 109, 101, 111, 117, 116]"]
  by (simp add: failing_client_def)

section \<open>Properties of the orchestrator\<close>

subsection \<open>Exclusivity\<close>

lemma running_for_Some:
  assumes "(taskId, t) \<in> set activeParsings" and "entityId t = eid" and "status t = Running"
  shows "\<exists>taskId' t'. running_for activeParsings eid = Some (taskId', t') \<and>
           (taskId', t') \<in> set activeParsings \<and> entityId t' = eid \<and> status t' = Running"
proof -
  have "find (\<lambda>(taskId, t). entityId t = eid \<and> status t = Running) activeParsings \<noteq> None"
    using assms by (auto simp: find_None_iff)
  then obtain x where x: "running_for activeParsings eid = Some x"
    by (auto simp: running_for_def)
  then have "x \<in> set activeParsings \<and> entityId (snd x) = eid \<and> status (snd x) = Running"
    unfolding running_for_def find_Some_iff by (auto simp: split_beta)
  with x show ?thesis by (cases x) auto
qed

lemma sample_lookup:
  "find (\<lambda>p. project_id p = [112, 49]) sample_store = Some (hd sample_store)"
  "find (\<lambda>e. entity_id e = [101, 49]) (entities (hd sample_store)) = Some sample_entity"
  "([116, 49], sample_task) \<in> set sample_registry"
  "entityId sample_task = [101, 49]" "status sample_task = Running"
  by (simp_all add: sample_store_def sample_entity_def sample_registry_def sample_task_def)

text \<open>
  Claim C1. A start request that names an existing project and entity, made while the
  registry holds a running task for that entity, is answered with the id of a running
  task of that entity that is in the registry, and leaves the registry as it was: no
  task is added and none is changed.
\<close>

theorem running_job_is_returned:
  assumes "find (\<lambda>p. project_id p = pid) projects = Some p"
    and "find (\<lambda>e. entity_id e = eid) (entities p) = Some e"
    and "(taskId, t) \<in> set activeParsings" and "entityId t = eid" and "status t = Running"
  shows "\<exists>taskId' t'. parse_background projects activeParsings pid eid newId now =
           (AlreadyRunning taskId', activeParsings) \<and>
         (taskId', t') \<in> set activeParsings \<and> entityId t' = eid \<and> status t' = Running"
  using running_for_Some [OF assms(3-5)] assms(1,2)
  by (auto simp: parse_background_def)

theorem running_job_is_returned_witness:
  "\<exists>taskId' t'. parse_background sample_store sample_registry [112, 49] [101, 49] [116, 50] [49] =
           (AlreadyRunning taskId', sample_registry) \<and>
         (taskId', t') \<in> set sample_registry \<and> entityId t' = [101, 49] \<and> status t' = Running"
  using running_job_is_returned [OF sample_lookup, of "[116, 50]" "[49]"] .

subsection \<open>Progress\<close>

subsubsection \<open>The error of the double arithmetic\<close>























subsubsection \<open>The updates of a job\<close>
















subsection \<open>A failed job writes nothing\<close>

text \<open>
  On the sample store, a job whose searches all return ends completed and replaces
  the store.
\<close>

lemma completed_job_writes:
  "status (fst (run_job working_provider None [105] [48] [49] (regionInfo STR_ru)
                 sample_entity sample_task sample_store)) = Completed"
  "snd (run_job working_provider None [105] [48] [49] (regionInfo STR_ru)
          sample_entity sample_task sample_store) \<noteq> sample_store"
  by (simp_all add: run_job_def working_provider_def sample_entity_def sample_task_def
      sample_store_def push_parsing_def Let_def calculateMetricsWithProgress_def
      on_analysis_progress_def report_def relabel_def updateProgress_def STR_google_def
      split: prod.splits)

lemma run_engines_throws:
  assumes "k < length todo" and "outcome (search (engineIndex + k) (todo ! k)) = Throws message"
  shows "\<exists>m ob'. run_engines search engineCount todo engineIndex completed parsingResults ob = (Throws m, ob')"
  using assms
proof (induction todo arbitrary: k engineIndex completed parsingResults ob)
  case Nil
  then show ?case by simp
next
  case (Cons engine todo)
  show ?case
  proof (cases "outcome (search engineIndex engine)")
    case (Throws m)
    then show ?thesis by (simp add: Let_def)
  next
    case (Returns rs)
    with Cons.prems obtain k' where k: "k = Suc k'" by (cases k) auto
    with Cons.prems have "k' < length todo"
      and "outcome (search ((engineIndex + 1) + k') (todo ! k')) = Throws message"
      by simp_all
    from Cons.IH [OF this] Returns show ?thesis
      by (simp add: Let_def split: prod.splits)
  qed
qed

lemma report_result [simp]:
  "result (fst (report (updateProgress engineCount engineIndex completed subStep subProgress) ob)) =
     result (fst ob)"
  by (simp add: report_def updateProgress_def Let_def)

lemma relabel_result [simp]: "result (fst (relabel step ob)) = result (fst ob)"
  by (simp add: relabel_def)

lemma fold_search_progress_result [simp]:
  "result (fst (fold (on_search_progress engineCount engineIndex completed engine) evs ob)) =
     result (fst ob)"
  by (induction evs arbitrary: ob) (simp_all add: on_search_progress_def)

lemma run_engines_result:
  "result (fst (snd (run_engines search engineCount todo engineIndex completed parsingResults ob))) =
     result (fst ob)"
proof (induction todo arbitrary: engineIndex completed parsingResults ob)
  case Nil
  then show ?case by simp
next
  case (Cons engine todo)
  show ?case
  proof (cases "outcome (search engineIndex engine)")
    case (Throws m)
    then show ?thesis by (simp add: Let_def)
  next
    case (Returns rs)
    then show ?thesis
      by (simp add: Let_def Cons.IH calculateMetricsWithProgress_def on_analysis_progress_def)
  qed
qed

lemma sample_throw:
  "1 < length (engines sample_entity)"
  "outcome (failing_provider 1 (engines sample_entity ! 1)) = Throws [98, 111, 111, 109]"
  by (simp_all add: sample_entity_def failing_provider_def)

text \<open>
  Claim C9. When the search of some engine of the job throws, the job ends in status
  error, its task carries no result beyond what it had, and the store is exactly what it
  was when the job started: nothing computed for the engines before the failure is
  written, since the store is replaced only after the loop over the engines.
\<close>

theorem failed_job_persists_nothing:
  assumes "k < length (engines e)" and "outcome (search k (engines e ! k)) = Throws message"
  shows "status (fst (run_job search saveFault newId now finished info e t projects)) = Error \<and>
         result (fst (run_job search saveFault newId now finished info e t projects)) = result t \<and>
         snd (run_job search saveFault newId now finished info e t projects) = projects"
proof -
  obtain m ob' where
    "run_engines search (length (engines e)) (engines e) 0 0 (new_parsing newId now info) (t, []) =
       (Throws m, ob')"
    using run_engines_throws [where k = k and todo = "engines e" and engineIndex = 0
        and search = search and message = message] assms
    by fastforce
  then show ?thesis
    using run_engines_result [of search "length (engines e)" "engines e" 0 0
        "new_parsing newId now info" "(t, [])"]
    by (simp add: run_job_def)
qed

theorem failed_job_persists_nothing_witness:
  "status (fst (run_job failing_provider None [105] [48] [49] (regionInfo STR_ru)
                 sample_entity sample_task sample_store)) = Error \<and>
   snd (run_job failing_provider None [105] [48] [49] (regionInfo STR_ru)
          sample_entity sample_task sample_store) = sample_store"
  using failed_job_persists_nothing [where k = 1 and e = sample_entity
      and search = failing_provider and message = "[98, 111, 111, 109]" and saveFault = None
      and newId = "[105]" and now = "[48]" and finished = "[49]"
      and info = "regionInfo STR_ru" and t = sample_task and projects = sample_store]
    sample_throw
  by simp

end
